theory Spec2Isabelle
  imports Main
begin

section \<open>Errors and strings\<close>

text \<open>
  A Go \<open>error\<close> value. The sentinels are the ones the deletion path can hand back on its
  own: the retry helper's time-out and the two errors a cancelled or expired context
  reports. Every other error is known only through its message (\<open>err.Error()\<close>).
\<close>

datatype error =
    ErrWaitTimeout
  | Canceled
  | DeadlineExceeded
  | New string

fun Error :: "error \<Rightarrow> string" where
  "Error ErrWaitTimeout = ''timed out waiting for the condition''"
| "Error Canceled = ''context canceled''"
| "Error DeadlineExceeded = ''context deadline exceeded''"
| "Error (New msg) = msg"

text \<open>\<open>strings.HasPrefix\<close> and \<open>strings.Contains\<close> on byte strings.\<close>

fun HasPrefix :: "string \<Rightarrow> string \<Rightarrow> bool" where
  "HasPrefix s [] = True"
| "HasPrefix [] (p # ps) = False"
| "HasPrefix (c # cs) (p # ps) = (c = p \<and> HasPrefix cs ps)"

fun Contains :: "string \<Rightarrow> string \<Rightarrow> bool" where
  "Contains [] substr = (substr = [])"
| "Contains (c # cs) substr = (HasPrefix (c # cs) substr \<or> Contains cs substr)"

section \<open>Declarations of the package that the deletion path uses\<close>

text \<open>
  Modelled from the spec: the outcome type \<open>Status\<close> is declared in a file of the package
  that is not among the sources. The spec names its three values: Changed (a mutation was
  applied), NotChanged (the resource is already in its terminal state) and Retry (a
  transient condition, the caller should call again).
\<close>

datatype Status = Changed | NotChanged | Retry

text \<open>
  The two marker constants \<open>errWait\<close> and \<open>errNotFound\<close> and the three name builders
  \<open>ClusterRRN\<close>, \<open>NodePoolRRN\<close> and \<open>Location\<close> are declared elsewhere in the package.
  They are parameters of the model: every theorem below holds for all their values.
\<close>

record decls =
  errWait :: string
  errNotFound :: string
  ClusterRRN :: "string \<Rightarrow> string \<Rightarrow> string \<Rightarrow> string"
  NodePoolRRN :: "string \<Rightarrow> string \<Rightarrow> string \<Rightarrow> string \<Rightarrow> string"
  Location :: "string \<Rightarrow> string \<Rightarrow> string"

section \<open>The world around one call\<close>

text \<open>
  A log line is kept as the code passes it to the logger: the level, the format string
  and the arguments.
\<close>

datatype arg = S string | D int | V "error option"

datatype log_entry = Infof string "arg list" | Errorf string "arg list"

text \<open>
  Everything a deletion call does to its environment: the resource names of the remote
  delete calls issued so far (in order), the durations slept, and the log.
\<close>

record world =
  clusterDeleteCalls :: "string list"
  nodePoolDeleteCalls :: "string list"
  slept :: "int list"
  logs :: "log_entry list"

text \<open>
  The remote client (\<open>services.GKEClusterService\<close>), consumed through its interface:
  the error (or \<open>nil\<close>, here \<open>None\<close>) that the k-th call of a method returns for a
  resource name, k counting the earlier calls of that method. The operation handle that
  the methods also return is discarded by both callers.
\<close>

record GKEClusterService =
  ClusterDelete :: "nat \<Rightarrow> string \<Rightarrow> error option"
  NodePoolDelete :: "nat \<Rightarrow> string \<Rightarrow> error option"

text \<open>
  The caller's context: \<open>Err ctx a\<close> is what \<open>ctx.Err()\<close> reports when attempt \<open>a\<close>
  looks at \<open>ctx.Done()\<close>; \<open>None\<close> means that the channel is still open.
\<close>

record Context =
  Err :: "int \<Rightarrow> error option"

section \<open>The cluster configuration\<close>

text \<open>
  The configuration types (\<open>gkev1.GKEClusterConfig\<close> and the types of its fields) are
  declared in the package of API types, outside the sources. They are taken here with the
  fields that the functions below read and the test helper \<open>createValidSecurityConfig\<close>
  sets for them; a pointer that may be \<open>nil\<close> is an \<open>option\<close>, and so is a map, whose
  \<open>nil\<close> the code tests before looking a key up.
\<close>

record GKEPrivateClusterConfig =
  EnablePrivateNodes :: bool
  EnablePrivateEndpoint :: bool
  MasterIpv4CidrBlock :: string

record GKEBinaryAuthorization =
  Enabled :: bool

record GKEShieldedNodes =
  Enabled :: bool

record GKELegacyAbac =
  Enabled :: bool

record GKEClientCertificateConfig =
  IssueClientCertificate :: bool

record GKEMasterAuth =
  Username :: string
  Password :: string
  ClientCertificateConfig :: "GKEClientCertificateConfig option"

record GKEDatabaseEncryption =
  State :: string
  KeyName :: string

record GKEShieldedInstanceConfig =
  EnableIntegrityMonitoring :: bool
  EnableSecureBoot :: bool

record GKEWorkloadMetadataConfig =
  Mode :: string

record GKENodeConfig =
  ShieldedInstanceConfig :: "GKEShieldedInstanceConfig option"
  WorkloadMetadataConfig :: "GKEWorkloadMetadataConfig option"

record GKENodePoolConfig =
  Config :: "GKENodeConfig option"

record GKEClusterConfigSpec =
  ProjectID :: string
  Region :: string
  Zone :: string
  ClusterName :: string
  EnableKubernetesAlpha :: "bool option"
  Labels :: "(string \<rightharpoonup> string) option"
  PrivateClusterConfig :: "GKEPrivateClusterConfig option"
  DatabaseEncryption :: "GKEDatabaseEncryption option"
  BinaryAuthorization :: "GKEBinaryAuthorization option"
  ShieldedNodes :: "GKEShieldedNodes option"
  LegacyAbac :: "GKELegacyAbac option"
  MasterAuth :: "GKEMasterAuth option"
  NodePools :: "GKENodePoolConfig list"

record ObjectMeta =
  Annotations :: "(string \<rightharpoonup> string) option"

record GKEClusterConfig =
  ObjectMeta :: ObjectMeta
  Spec :: GKEClusterConfigSpec

section \<open>Node pool deletion\<close>

definition NodePoolDelete_call ::
  "GKEClusterService \<Rightarrow> string \<Rightarrow> world \<Rightarrow> error option \<times> world" where
  "NodePoolDelete_call gkeClient rrn w =
     (NodePoolDelete gkeClient (length (nodePoolDeleteCalls w)) rrn,
      w\<lparr>nodePoolDeleteCalls := nodePoolDeleteCalls w @ [rrn]\<rparr>)"

definition RemoveNodePool ::
  "decls \<Rightarrow> GKEClusterService \<Rightarrow> GKEClusterConfig \<Rightarrow> string \<Rightarrow> world
     \<Rightarrow> (Status \<times> error option) \<times> world" where
  "RemoveNodePool d gkeClient config nodePoolName w =
     (case NodePoolDelete_call gkeClient
             (NodePoolRRN d (ProjectID (Spec config))
                (Location d (Region (Spec config)) (Zone (Spec config)))
                (ClusterName (Spec config)) nodePoolName) w of
        (err, w') \<Rightarrow>
          if err \<noteq> None \<and> Contains (Error (the err)) (errWait d) then ((Retry, None), w')
          else if err \<noteq> None \<and> Contains (Error (the err)) (errNotFound d)
            then ((NotChanged, None), w')
          else if err \<noteq> None then ((NotChanged, err), w')
          else ((Changed, None), w'))"

section \<open>Cluster deletion\<close>

definition waitSec :: int where
  "waitSec = 30"

definition backoffSteps :: int where
  "backoffSteps = 12"

text \<open>\<open>time.Second\<close>: a \<open>time.Duration\<close> counts nanoseconds.\<close>

definition Second :: int where
  "Second = 1000000000"

text \<open>
  \<open>wait.Backoff\<close> with the two fields that the package sets; the growth factor, the jitter
  and the cap keep their zero values.
\<close>

record Backoff =
  Duration :: int
  Steps :: int

definition backoff :: Backoff where
  "backoff = \<lparr>Duration = waitSec * Second, Steps = backoffSteps\<rparr>"

definition Sleep :: "int \<Rightarrow> 'a \<times> world \<Rightarrow> 'a \<times> world" where
  "Sleep d s = (fst s, (snd s)\<lparr>slept := slept (snd s) @ [d]\<rparr>)"

text \<open>
  Modelled from the spec: the retry helper \<open>wait.ExponentialBackoff\<close> of the imported
  \<open>wait\<close> package is not among the sources. The spec describes what it does with the
  policy above: an attempt that reports neither completion nor an error is followed by a
  sleep of the fixed interval and another attempt; completion or an error ends the
  operation at once with that result; when the attempt budget (max steps) is used up while
  the attempts still report neither, the operation fails with a time-out error, with no
  sleep after the last attempt. The first argument counts the attempts left; \<open>'a\<close> is
  the state that the condition closure captures.
\<close>

fun ExponentialBackoff_steps ::
  "nat \<Rightarrow> int \<Rightarrow> ('a \<times> world \<Rightarrow> (bool \<times> error option) \<times> 'a \<times> world) \<Rightarrow> 'a \<times> world
     \<Rightarrow> error option \<times> 'a \<times> world" where
  "ExponentialBackoff_steps 0 d condition s = (Some ErrWaitTimeout, s)"
| "ExponentialBackoff_steps (Suc n) d condition s =
     (case condition s of
        ((ok, err), s') \<Rightarrow>
          if err \<noteq> None \<or> ok then (err, s')
          else if n = 0 then (Some ErrWaitTimeout, s')
          else ExponentialBackoff_steps n d condition (Sleep d s'))"

definition ExponentialBackoff ::
  "Backoff \<Rightarrow> ('a \<times> world \<Rightarrow> (bool \<times> error option) \<times> 'a \<times> world) \<Rightarrow> 'a \<times> world
     \<Rightarrow> error option \<times> 'a \<times> world" where
  "ExponentialBackoff b condition s =
     ExponentialBackoff_steps (nat (Steps b)) (Duration b) condition s"

definition log :: "log_entry \<Rightarrow> world \<Rightarrow> world" where
  "log e w = w\<lparr>logs := logs w @ [e]\<rparr>"

definition ClusterDelete_call ::
  "GKEClusterService \<Rightarrow> string \<Rightarrow> world \<Rightarrow> error option \<times> world" where
  "ClusterDelete_call gkeClient rrn w =
     (ClusterDelete gkeClient (length (clusterDeleteCalls w)) rrn,
      w\<lparr>clusterDeleteCalls := clusterDeleteCalls w @ [rrn]\<rparr>)"

text \<open>
  The closure that \<open>RemoveCluster\<close> hands to the retry helper. It captures the counter
  \<open>attempt\<close>, the first component of the state; its result is the pair \<open>(done, err)\<close>.
\<close>

definition RemoveCluster_condition ::
  "decls \<Rightarrow> Context \<Rightarrow> GKEClusterService \<Rightarrow> string \<Rightarrow> int \<times> world
     \<Rightarrow> (bool \<times> error option) \<times> int \<times> world" where
  "RemoveCluster_condition d ctx gkeClient clusterRRN s =
     (let attempt = fst s + 1;
          w1 = log (Infof ''[DEBUG] RemoveCluster attempt %d for %s'' [D attempt, S clusterRRN])
                 (snd s)
      in if Err ctx attempt \<noteq> None then
           ((False, Err ctx attempt), attempt,
            log (Errorf
                  ''[DEBUG] Context cancelled before ClusterDelete call (attempt %d) for %s: %v''
                  [D attempt, S clusterRRN, V (Err ctx attempt)]) w1)
         else
           let w2 = log (Infof ''[DEBUG] Calling ClusterDelete for %s (attempt %d)''
                          [S clusterRRN, D attempt]) w1;
               r = ClusterDelete_call gkeClient clusterRRN w2;
               err = fst r;
               w3 = (if err \<noteq> None
                     then log (Errorf
                                ''[DEBUG] ClusterDelete returned error for %s (attempt %d): %v''
                                [S clusterRRN, D attempt, V err]) (snd r)
                     else log (Infof ''[DEBUG] ClusterDelete succeeded for %s (attempt %d)''
                                [S clusterRRN, D attempt]) (snd r))
           in if err \<noteq> None \<and> Contains (Error (the err)) (errWait d) then
                ((False, None), attempt,
                 log (Infof ''[DEBUG] Cluster %s is busy, retrying (attempt %d)''
                       [S clusterRRN, D attempt]) w3)
              else if err \<noteq> None \<and> Contains (Error (the err)) (errNotFound d) then
                ((True, None), attempt,
                 log (Infof
                       ''[DEBUG] Cluster %s not found, considering deletion successful (attempt %d)''
                       [S clusterRRN, D attempt]) w3)
              else if err \<noteq> None then
                ((False, err), attempt,
                 log (Errorf ''[DEBUG] Permanent error deleting cluster %s (attempt %d): %v''
                       [S clusterRRN, D attempt, V err]) w3)
              else
                ((True, None), attempt,
                 log (Infof ''[DEBUG] Successfully deleted cluster %s (attempt %d)''
                       [S clusterRRN, D attempt]) w3))"

definition RemoveCluster ::
  "decls \<Rightarrow> Context \<Rightarrow> GKEClusterService \<Rightarrow> GKEClusterConfig \<Rightarrow> world
     \<Rightarrow> error option \<times> world" where
  "RemoveCluster d ctx gkeClient config w =
     (let clusterRRN = ClusterRRN d (ProjectID (Spec config))
                         (Location d (Region (Spec config)) (Zone (Spec config)))
                         (ClusterName (Spec config));
          w1 = log (Infof ''[DEBUG] Starting RemoveCluster for %s'' [S clusterRRN]) w;
          r = ExponentialBackoff backoff
                (RemoveCluster_condition d ctx gkeClient clusterRRN) (0, w1)
      in (fst r, snd (snd r)))"

section \<open>The security compliance checks\<close>

text \<open>The decimal digits that \<open>%d\<close> prints for a slice index.\<close>

fun Itoa :: "nat \<Rightarrow> string" where
  "Itoa n =
     (if n < 10 then [''0123456789'' ! n]
      else Itoa (n div 10) @ [''0123456789'' ! (n mod 10)])"

declare Itoa.simps [simp del]

text \<open>The loop over \<open>config.Spec.NodePools\<close>; \<open>i\<close> is the index of the head of the list.\<close>

fun validateNodePools :: "nat \<Rightarrow> GKENodePoolConfig list \<Rightarrow> error option" where
  "validateNodePools i [] = None"
| "validateNodePools i (nodePool # rest) =
     (case Config nodePool of
        None \<Rightarrow>
          Some (New (''node pool '' @ Itoa i @ '' config cannot be nil for security compliance''))
      | Some c \<Rightarrow>
          if (case ShieldedInstanceConfig c of
                None \<Rightarrow> True
              | Some sic \<Rightarrow> \<not> EnableIntegrityMonitoring sic \<or> \<not> EnableSecureBoot sic)
          then Some (New (''node pool '' @ Itoa i @
                 '' must have shielded instance config with integrity monitoring and secure boot enabled''))
          else if (case WorkloadMetadataConfig c of
                     None \<Rightarrow> True
                   | Some wmc \<Rightarrow> Mode wmc \<noteq> ''GKE_METADATA'')
          then Some (New (''node pool '' @ Itoa i @
                 '' must use GKE_METADATA mode for security compliance''))
          else validateNodePools (i + 1) rest)"

text \<open>
  The checks in the order of the source. The two checks inside the block
  \<open>if config.Spec.MasterAuth != nil\<close> are two branches here, each with the test for
  \<open>nil\<close> in front.
\<close>

definition validateSecurityCompliance :: "GKEClusterConfig \<Rightarrow> error option" where
  "validateSecurityCompliance config =
     (let spec = Spec config in
      if (case EnableKubernetesAlpha spec of None \<Rightarrow> False | Some alpha \<Rightarrow> alpha) then
        Some (New ''alpha features must be disabled for security compliance'')
      else if (case PrivateClusterConfig spec of
                 None \<Rightarrow> True | Some pcc \<Rightarrow> \<not> EnablePrivateNodes pcc) then
        Some (New ''private nodes must be enabled for security compliance'')
      else if (case BinaryAuthorization spec of
                 None \<Rightarrow> True | Some ba \<Rightarrow> \<not> GKEBinaryAuthorization.Enabled ba) then
        Some (New ''binary authorization must be enabled for security compliance'')
      else if (case ShieldedNodes spec of
                 None \<Rightarrow> True | Some sn \<Rightarrow> \<not> GKEShieldedNodes.Enabled sn) then
        Some (New ''shielded nodes must be enabled for security compliance'')
      else if (case LegacyAbac spec of
                 None \<Rightarrow> False | Some la \<Rightarrow> GKELegacyAbac.Enabled la) then
        Some (New ''legacy ABAC must be disabled for security compliance'')
      else if (case MasterAuth spec of
                 None \<Rightarrow> False | Some ma \<Rightarrow> Username ma \<noteq> [] \<or> Password ma \<noteq> []) then
        Some (New ''basic authentication must be disabled for security compliance'')
      else if (case MasterAuth spec of
                 None \<Rightarrow> False
               | Some ma \<Rightarrow>
                   (case ClientCertificateConfig ma of
                      None \<Rightarrow> False | Some ccc \<Rightarrow> IssueClientCertificate ccc)) then
        Some (New ''client certificate issuance must be disabled for security compliance'')
      else if (case DatabaseEncryption spec of
                 None \<Rightarrow> True | Some de \<Rightarrow> State de \<noteq> ''ENCRYPTED'') then
        Some (New ''database encryption must be enabled for security compliance'')
      else validateNodePools 0 (NodePools spec))"

definition needsSecurityCompliance :: "GKEClusterConfig \<Rightarrow> bool" where
  "needsSecurityCompliance config =
     (if (case Labels (Spec config) of
            None \<Rightarrow> False
          | Some labels \<Rightarrow>
              (case labels ''compliance'' of
                 None \<Rightarrow> False | Some compliance \<Rightarrow> compliance = ''security''))
      then True
      else if (case Annotations (ObjectMeta config) of
                 None \<Rightarrow> False
               | Some annotations \<Rightarrow>
                   (case annotations ''gke.cattle.io/security-compliance'' of
                      None \<Rightarrow> False | Some compliance \<Rightarrow> compliance = ''true''))
      then True
      else False)"

section \<open>The test helper's configuration\<close>

text \<open>
  \<open>createValidSecurityConfig\<close> of the test file, with the fields modelled above; the
  fields left out of the model are read by none of the functions here.
\<close>

definition createValidSecurityConfig :: GKEClusterConfig where
  "createValidSecurityConfig =
     \<lparr>ObjectMeta = \<lparr>Annotations = None\<rparr>,
      Spec =
        \<lparr>ProjectID = [],
         Region = [],
         Zone = [],
         ClusterName = ''test-security-cluster'',
         EnableKubernetesAlpha = Some False,
         Labels = Some [''compliance'' \<mapsto> ''security''],
         PrivateClusterConfig =
           Some \<lparr>EnablePrivateNodes = True, EnablePrivateEndpoint = True,
                  MasterIpv4CidrBlock = ''172.16.0.0/28''\<rparr>,
         DatabaseEncryption =
           Some \<lparr>State = ''ENCRYPTED'',
                  KeyName = ''projects/test/locations/us-central1/keyRings/ring/cryptoKeys/key''\<rparr>,
         BinaryAuthorization = Some \<lparr>GKEBinaryAuthorization.Enabled = True\<rparr>,
         ShieldedNodes = Some \<lparr>GKEShieldedNodes.Enabled = True\<rparr>,
         LegacyAbac = Some \<lparr>GKELegacyAbac.Enabled = False\<rparr>,
         MasterAuth =
           Some \<lparr>Username = [], Password = [],
                  ClientCertificateConfig = Some \<lparr>IssueClientCertificate = False\<rparr>\<rparr>,
         NodePools =
           [\<lparr>Config =
               Some \<lparr>ShieldedInstanceConfig =
                        Some \<lparr>EnableIntegrityMonitoring = True, EnableSecureBoot = True\<rparr>,
                      WorkloadMetadataConfig = Some \<lparr>Mode = ''GKE_METADATA''\<rparr>\<rparr>\<rparr>]\<rparr>\<rparr>"

text \<open>The zero value \<open>&gkev1.GKEClusterConfig{}\<close> of the third compliance-predicate test.\<close>

definition emptyConfig :: GKEClusterConfig where
  "emptyConfig =
     \<lparr>ObjectMeta = \<lparr>Annotations = None\<rparr>,
      Spec =
        \<lparr>ProjectID = [], Region = [], Zone = [], ClusterName = [],
         EnableKubernetesAlpha = None, Labels = None, PrivateClusterConfig = None,
         DatabaseEncryption = None, BinaryAuthorization = None, ShieldedNodes = None,
         LegacyAbac = None, MasterAuth = None, NodePools = []\<rparr>\<rparr>"

section \<open>The specification's vocabulary\<close>

subsection \<open>Deletion\<close>

text \<open>The resource names that the two deletion functions build from a configuration.\<close>

definition clusterRRN_of :: "decls \<Rightarrow> GKEClusterConfig \<Rightarrow> string" where
  "clusterRRN_of d config =
     ClusterRRN d (ProjectID (Spec config))
       (Location d (Region (Spec config)) (Zone (Spec config))) (ClusterName (Spec config))"

definition nodePoolRRN_of :: "decls \<Rightarrow> GKEClusterConfig \<Rightarrow> string \<Rightarrow> string" where
  "nodePoolRRN_of d config nodePoolName =
     NodePoolRRN d (ProjectID (Spec config))
       (Location d (Region (Spec config)) (Zone (Spec config))) (ClusterName (Spec config))
       nodePoolName"

text \<open>
  The Error Classifier as the specification words it: no error; Busy when the message
  contains the busy marker; Absent when it contains the not-found marker; Fatal for
  anything else. The cases are taken in this order.
\<close>

datatype Classification = NoError | Busy | Absent | Fatal

fun spec_Classifier :: "decls \<Rightarrow> error option \<Rightarrow> Classification" where
  "spec_Classifier d None = NoError"
| "spec_Classifier d (Some e) =
     (if Contains (Error e) (errWait d) then Busy
      else if Contains (Error e) (errNotFound d) then Absent
      else Fatal)"

text \<open>
  What the specification makes of a classified error. An attempt of the cluster deletion
  yields \<open>(done, err)\<close>: no error and Absent end the operation with success, Busy asks
  for another attempt, Fatal ends it with the error. The node pool deletion yields an
  outcome and an error: Busy gives Retry, Absent gives NotChanged, both without error,
  Fatal gives NotChanged with the error, no error gives Changed.
\<close>

fun spec_attempt :: "Classification \<Rightarrow> error option \<Rightarrow> bool \<times> error option" where
  "spec_attempt NoError err = (True, None)"
| "spec_attempt Busy err = (False, None)"
| "spec_attempt Absent err = (True, None)"
| "spec_attempt Fatal err = (False, err)"

fun spec_outcome :: "Classification \<Rightarrow> error option \<Rightarrow> Status \<times> error option" where
  "spec_outcome NoError err = (Changed, None)"
| "spec_outcome Busy err = (Retry, None)"
| "spec_outcome Absent err = (NotChanged, None)"
| "spec_outcome Fatal err = (NotChanged, err)"

text \<open>
  \<open>busy_attempts d ctx gkeClient rrn a k n\<close>: after \<open>a\<close> attempts and \<open>k\<close> remote calls, each
  of the next \<open>n\<close> attempts finds the context open and gets a Busy error from the client.
\<close>

definition busy_attempts ::
  "decls \<Rightarrow> Context \<Rightarrow> GKEClusterService \<Rightarrow> string \<Rightarrow> int \<Rightarrow> nat \<Rightarrow> nat \<Rightarrow> bool" where
  "busy_attempts d ctx gkeClient rrn a k n =
     (\<forall>i<n. Err ctx (a + int i + 1) = None \<and>
        spec_Classifier d (ClusterDelete gkeClient (k + i) rrn) = Busy)"

text \<open>The log line that only a Fatal remote error produces.\<close>

definition permanent_error_format :: string where
  "permanent_error_format = ''[DEBUG] Permanent error deleting cluster %s (attempt %d): %v''"

definition logs_permanent_error :: "log_entry list \<Rightarrow> bool" where
  "logs_permanent_error ls = (\<exists>args. Errorf permanent_error_format args \<in> set ls)"

subsection \<open>The security checklist\<close>

text \<open>The eight rules of the checklist, each as the specification words it.\<close>

definition spec_alpha_disabled :: "GKEClusterConfigSpec \<Rightarrow> bool" where
  "spec_alpha_disabled s =
     (case EnableKubernetesAlpha s of None \<Rightarrow> True | Some alpha \<Rightarrow> \<not> alpha)"

definition spec_private_nodes :: "GKEClusterConfigSpec \<Rightarrow> bool" where
  "spec_private_nodes s =
     (case PrivateClusterConfig s of None \<Rightarrow> False | Some pcc \<Rightarrow> EnablePrivateNodes pcc)"

definition spec_binary_authorization :: "GKEClusterConfigSpec \<Rightarrow> bool" where
  "spec_binary_authorization s =
     (case BinaryAuthorization s of
        None \<Rightarrow> False | Some ba \<Rightarrow> GKEBinaryAuthorization.Enabled ba)"

definition spec_shielded_nodes :: "GKEClusterConfigSpec \<Rightarrow> bool" where
  "spec_shielded_nodes s =
     (case ShieldedNodes s of None \<Rightarrow> False | Some sn \<Rightarrow> GKEShieldedNodes.Enabled sn)"

definition spec_legacy_abac_disabled :: "GKEClusterConfigSpec \<Rightarrow> bool" where
  "spec_legacy_abac_disabled s =
     (case LegacyAbac s of None \<Rightarrow> True | Some la \<Rightarrow> \<not> GKELegacyAbac.Enabled la)"

definition spec_no_basic_auth :: "GKEClusterConfigSpec \<Rightarrow> bool" where
  "spec_no_basic_auth s =
     (case MasterAuth s of None \<Rightarrow> True | Some ma \<Rightarrow> Username ma = [] \<and> Password ma = [])"

definition spec_no_client_certificate :: "GKEClusterConfigSpec \<Rightarrow> bool" where
  "spec_no_client_certificate s =
     (case MasterAuth s of
        None \<Rightarrow> True
      | Some ma \<Rightarrow>
          (case ClientCertificateConfig ma of
             None \<Rightarrow> True | Some ccc \<Rightarrow> \<not> IssueClientCertificate ccc))"

definition spec_master_auth :: "GKEClusterConfigSpec \<Rightarrow> bool" where
  "spec_master_auth s = (spec_no_basic_auth s \<and> spec_no_client_certificate s)"

definition spec_database_encrypted :: "GKEClusterConfigSpec \<Rightarrow> bool" where
  "spec_database_encrypted s =
     (case DatabaseEncryption s of None \<Rightarrow> False | Some de \<Rightarrow> State de = ''ENCRYPTED'')"

definition spec_pool_has_config :: "GKENodePoolConfig \<Rightarrow> bool" where
  "spec_pool_has_config np = (Config np \<noteq> None)"

definition spec_pool_shielded :: "GKENodePoolConfig \<Rightarrow> bool" where
  "spec_pool_shielded np =
     (case Config np of
        None \<Rightarrow> False
      | Some c \<Rightarrow>
          (case ShieldedInstanceConfig c of
             None \<Rightarrow> False
           | Some sic \<Rightarrow> EnableIntegrityMonitoring sic \<and> EnableSecureBoot sic))"

definition spec_pool_gke_metadata :: "GKENodePoolConfig \<Rightarrow> bool" where
  "spec_pool_gke_metadata np =
     (case Config np of
        None \<Rightarrow> False
      | Some c \<Rightarrow>
          (case WorkloadMetadataConfig c of
             None \<Rightarrow> False | Some wmc \<Rightarrow> Mode wmc = ''GKE_METADATA''))"

definition spec_node_pools :: "GKEClusterConfigSpec \<Rightarrow> bool" where
  "spec_node_pools s =
     list_all (\<lambda>np. spec_pool_has_config np \<and> spec_pool_shielded np \<and> spec_pool_gke_metadata np)
       (NodePools s)"

definition spec_compliant :: "GKEClusterConfig \<Rightarrow> bool" where
  "spec_compliant config =
     (spec_alpha_disabled (Spec config) \<and> spec_private_nodes (Spec config) \<and>
      spec_binary_authorization (Spec config) \<and> spec_shielded_nodes (Spec config) \<and>
      spec_legacy_abac_disabled (Spec config) \<and> spec_master_auth (Spec config) \<and>
      spec_database_encrypted (Spec config) \<and> spec_node_pools (Spec config))"

text \<open>
  The checklist in its fixed order: every check with the violation that reports its
  failure. Rule 6 has two checks and rule 8 three for each node pool, the pools in slice
  order.
\<close>

definition spec_pool_checks :: "nat \<times> GKENodePoolConfig \<Rightarrow> (bool \<times> error) list" where
  "spec_pool_checks p =
     [(spec_pool_has_config (snd p),
       New (''node pool '' @ Itoa (fst p) @ '' config cannot be nil for security compliance'')),
      (spec_pool_shielded (snd p),
       New (''node pool '' @ Itoa (fst p) @
         '' must have shielded instance config with integrity monitoring and secure boot enabled'')),
      (spec_pool_gke_metadata (snd p),
       New (''node pool '' @ Itoa (fst p) @
         '' must use GKE_METADATA mode for security compliance''))]"

definition spec_checklist :: "GKEClusterConfig \<Rightarrow> (bool \<times> error) list" where
  "spec_checklist config =
     [(spec_alpha_disabled (Spec config),
       New ''alpha features must be disabled for security compliance''),
      (spec_private_nodes (Spec config),
       New ''private nodes must be enabled for security compliance''),
      (spec_binary_authorization (Spec config),
       New ''binary authorization must be enabled for security compliance''),
      (spec_shielded_nodes (Spec config),
       New ''shielded nodes must be enabled for security compliance''),
      (spec_legacy_abac_disabled (Spec config),
       New ''legacy ABAC must be disabled for security compliance''),
      (spec_no_basic_auth (Spec config),
       New ''basic authentication must be disabled for security compliance''),
      (spec_no_client_certificate (Spec config),
       New ''client certificate issuance must be disabled for security compliance''),
      (spec_database_encrypted (Spec config),
       New ''database encryption must be enabled for security compliance'')] @
     concat (map spec_pool_checks (enumerate 0 (NodePools (Spec config))))"

text \<open>The first violation of a checklist: the violation of its earliest failing check.\<close>

fun first_violation :: "(bool \<times> error) list \<Rightarrow> error option" where
  "first_violation [] = None"
| "first_violation ((ok, v) # rest) = (if ok then first_violation rest else Some v)"

definition spec_first_violation :: "GKEClusterConfig \<Rightarrow> error option" where
  "spec_first_violation config = first_violation (spec_checklist config)"

text \<open>The number of checks that fail: two or more rules are broken when it exceeds one.\<close>

definition failed_checks :: "GKEClusterConfig \<Rightarrow> nat" where
  "failed_checks config = length (filter (\<lambda>c. \<not> fst c) (spec_checklist config))"

section \<open>Sample inputs\<close>

text \<open>
  Values for the parameters, and clients, contexts and a world to run the functions on.
  A scripted client answers its k-th call with the k-th entry of the script and with
  success once the script is used up.
\<close>

definition sample_decls :: decls where
  "sample_decls =
     \<lparr>errWait = ''Please wait and try again once it is done'',
      errNotFound = ''notFound'',
      ClusterRRN = (\<lambda>project location cluster.
        ''projects/'' @ project @ ''/locations/'' @ location @ ''/clusters/'' @ cluster),
      NodePoolRRN = (\<lambda>project location cluster pool.
        ''projects/'' @ project @ ''/locations/'' @ location @ ''/clusters/'' @ cluster @
        ''/nodePools/'' @ pool),
      Location = (\<lambda>region zone. if region \<noteq> [] then region else zone)\<rparr>"

definition scripted :: "error option list \<Rightarrow> GKEClusterService" where
  "scripted script =
     \<lparr>ClusterDelete = (\<lambda>k rrn. if k < length script then script ! k else None),
      NodePoolDelete = (\<lambda>k rrn. if k < length script then script ! k else None)\<rparr>"

definition always :: "error \<Rightarrow> GKEClusterService" where
  "always e = \<lparr>ClusterDelete = (\<lambda>k rrn. Some e), NodePoolDelete = (\<lambda>k rrn. Some e)\<rparr>"

definition busyError :: error where
  "busyError = New ''operation in progress. Please wait and try again once it is done.''"

definition notFoundError :: error where
  "notFoundError = New ''googleapi: Error 404: notFound''"

definition fatalError :: error where
  "fatalError = New ''googleapi: Error 403: forbidden''"

definition busyNotFoundError :: error where
  "busyNotFoundError = New ''notFound. Please wait and try again once it is done.''"

text \<open>\<open>context.Background()\<close> is never done; \<open>cancelledFrom n\<close> is done from attempt n on.\<close>

definition Background :: Context where
  "Background = \<lparr>Err = (\<lambda>a. None)\<rparr>"

definition cancelledFrom :: "int \<Rightarrow> Context" where
  "cancelledFrom n = \<lparr>Err = (\<lambda>a. if n \<le> a then Some Canceled else None)\<rparr>"

definition emptyWorld :: world where
  "emptyWorld = \<lparr>clusterDeleteCalls = [], nodePoolDeleteCalls = [], slept = [], logs = []\<rparr>"

section \<open>Strings\<close>

lemma HasPrefix_iff: "HasPrefix s t \<longleftrightarrow> (\<exists>ss. s = t @ ss)"
  by (induction s t rule: HasPrefix.induct) auto

lemma Contains_iff: "Contains s t \<longleftrightarrow> (\<exists>ps ss. s = ps @ t @ ss)"
proof (induction s)
  case Nil
  then show ?case by auto
next
  case (Cons c cs)
  show ?case
  proof
    assume "Contains (c # cs) t"
    then consider "HasPrefix (c # cs) t" | "Contains cs t" by auto
    then show "\<exists>ps ss. c # cs = ps @ t @ ss"
    proof cases
      case 1
      then obtain ss where "c # cs = t @ ss" by (auto simp: HasPrefix_iff)
      then have "c # cs = [] @ t @ ss" by simp
      then show ?thesis by blast
    next
      case 2
      then obtain ps ss where "cs = ps @ t @ ss" using Cons.IH by blast
      then have "c # cs = (c # ps) @ t @ ss" by simp
      then show ?thesis by blast
    qed
  next
    assume "\<exists>ps ss. c # cs = ps @ t @ ss"
    then obtain ps ss where e: "c # cs = ps @ t @ ss" by blast
    show "Contains (c # cs) t"
    proof (cases ps)
      case Nil
      with e have "HasPrefix (c # cs) t" by (auto simp: HasPrefix_iff)
      then show ?thesis by simp
    next
      case (Cons p ps')
      with e have "cs = ps' @ t @ ss" by simp
      then have "Contains cs t" using Cons.IH by blast
      then show ?thesis by simp
    qed
  qed
qed

section \<open>The classifier\<close>

lemma Classifier_NoError: "spec_Classifier d r = NoError \<longleftrightarrow> r = None"
  by (cases r) auto

lemma Classifier_Busy:
  "spec_Classifier d r = Busy \<longleftrightarrow> (\<exists>e. r = Some e \<and> Contains (Error e) (errWait d))"
  by (cases r) auto

lemma Classifier_Absent:
  "spec_Classifier d r = Absent \<longleftrightarrow>
     (\<exists>e. r = Some e \<and> \<not> Contains (Error e) (errWait d) \<and> Contains (Error e) (errNotFound d))"
  by (cases r) auto

lemma Classifier_Fatal:
  "spec_Classifier d r = Fatal \<longleftrightarrow>
     (\<exists>e. r = Some e \<and> \<not> Contains (Error e) (errWait d) \<and>
        \<not> Contains (Error e) (errNotFound d))"
  by (cases r) auto

section \<open>One attempt of the cluster deletion\<close>

lemma condition_cancelled:
  assumes "Err ctx (a + 1) = Some e"
  shows "\<exists>l. RemoveCluster_condition d ctx gkeClient rrn (a, w) =
           ((False, Some e), a + 1, w\<lparr>logs := logs w @ l\<rparr>) \<and>
         \<not> logs_permanent_error l"
proof -
  let ?l = "[Infof ''[DEBUG] RemoveCluster attempt %d for %s'' [D (a + 1), S rrn],
          Errorf ''[DEBUG] Context cancelled before ClusterDelete call (attempt %d) for %s: %v''
            [D (a + 1), S rrn, V (Some e)]]"
  have "RemoveCluster_condition d ctx gkeClient rrn (a, w) =
           ((False, Some e), a + 1, w\<lparr>logs := logs w @ ?l\<rparr>)"
    using assms by (simp add: RemoveCluster_condition_def Let_def log_def)
  moreover have "\<not> logs_permanent_error ?l"
    by (simp add: logs_permanent_error_def permanent_error_format_def)
  ultimately show ?thesis by blast
qed

lemma condition_open:
  assumes "Err ctx (a + 1) = None"
    and "err = ClusterDelete gkeClient (length (clusterDeleteCalls w)) rrn"
  shows "\<exists>l. RemoveCluster_condition d ctx gkeClient rrn (a, w) =
           (spec_attempt (spec_Classifier d err) err, a + 1,
            w\<lparr>clusterDeleteCalls := clusterDeleteCalls w @ [rrn], logs := logs w @ l\<rparr>) \<and>
         (logs_permanent_error l \<longleftrightarrow> spec_Classifier d err = Fatal)"
proof (cases err)
  case None
  let ?l = "[Infof ''[DEBUG] RemoveCluster attempt %d for %s'' [D (a + 1), S rrn],
          Infof ''[DEBUG] Calling ClusterDelete for %s (attempt %d)'' [S rrn, D (a + 1)],
          Infof ''[DEBUG] ClusterDelete succeeded for %s (attempt %d)'' [S rrn, D (a + 1)],
          Infof ''[DEBUG] Successfully deleted cluster %s (attempt %d)'' [S rrn, D (a + 1)]]"
  have "RemoveCluster_condition d ctx gkeClient rrn (a, w) =
           (spec_attempt (spec_Classifier d err) err, a + 1,
            w\<lparr>clusterDeleteCalls := clusterDeleteCalls w @ [rrn], logs := logs w @ ?l\<rparr>)"
  proof -
    have "ClusterDelete gkeClient (length (clusterDeleteCalls w)) rrn = None"
      using assms(2) None by simp
    with assms(1) show ?thesis
      by (simp add: None RemoveCluster_condition_def Let_def log_def ClusterDelete_call_def)
  qed
  moreover have "logs_permanent_error ?l \<longleftrightarrow> spec_Classifier d err = Fatal"
    by (simp add: None logs_permanent_error_def permanent_error_format_def)
  ultimately show ?thesis by blast
next
  case (Some e)
  let ?l = "[Infof ''[DEBUG] RemoveCluster attempt %d for %s'' [D (a + 1), S rrn],
          Infof ''[DEBUG] Calling ClusterDelete for %s (attempt %d)'' [S rrn, D (a + 1)],
          Errorf ''[DEBUG] ClusterDelete returned error for %s (attempt %d): %v''
            [S rrn, D (a + 1), V (Some e)],
          (if Contains (Error e) (errWait d)
           then Infof ''[DEBUG] Cluster %s is busy, retrying (attempt %d)'' [S rrn, D (a + 1)]
           else if Contains (Error e) (errNotFound d)
           then Infof
                  ''[DEBUG] Cluster %s not found, considering deletion successful (attempt %d)''
                  [S rrn, D (a + 1)]
           else Errorf ''[DEBUG] Permanent error deleting cluster %s (attempt %d): %v''
                  [S rrn, D (a + 1), V (Some e)])]"
  have "RemoveCluster_condition d ctx gkeClient rrn (a, w) =
           (spec_attempt (spec_Classifier d err) err, a + 1,
            w\<lparr>clusterDeleteCalls := clusterDeleteCalls w @ [rrn], logs := logs w @ ?l\<rparr>)"
  proof -
    have "ClusterDelete gkeClient (length (clusterDeleteCalls w)) rrn = Some e"
      using assms(2) Some by simp
    with assms(1) show ?thesis
      by (simp add: Some RemoveCluster_condition_def Let_def log_def ClusterDelete_call_def)
  qed
  moreover have "logs_permanent_error ?l \<longleftrightarrow> spec_Classifier d err = Fatal"
    by (simp add: Some logs_permanent_error_def permanent_error_format_def)
  ultimately show ?thesis by blast
qed

section \<open>The retry loop\<close>

lemma steps_terminal:
  assumes "fst (condition s) = (ok, err)" and "err \<noteq> None \<or> ok"
  shows "ExponentialBackoff_steps (Suc k) dur condition s = (err, snd (condition s))"
  using assms by (cases "condition s") auto

lemma steps_last:
  assumes "fst (condition s) = (False, None)"
  shows "ExponentialBackoff_steps (Suc 0) dur condition s =
           (Some ErrWaitTimeout, snd (condition s))"
  using assms by (cases "condition s") auto

lemma busy_attempts_Suc:
  assumes "busy_attempts d ctx gkeClient rrn a k (Suc n)"
  shows "busy_attempts d ctx gkeClient rrn (a + 1) (Suc k) n"
  unfolding busy_attempts_def
proof (intro allI impI)
  fix i
  assume "i < n"
  then have "Suc i < Suc n" by simp
  with assms have "Err ctx (a + int (Suc i) + 1) = None \<and>
      spec_Classifier d (ClusterDelete gkeClient (k + Suc i) rrn) = Busy"
    unfolding busy_attempts_def by blast
  then show "Err ctx (a + 1 + int i + 1) = None \<and>
      spec_Classifier d (ClusterDelete gkeClient (Suc k + i) rrn) = Busy"
    by (simp add: add.commute add.left_commute)
qed

lemma busy_attempts_first:
  assumes "busy_attempts d ctx gkeClient rrn a k (Suc n)"
  shows "Err ctx (a + 1) = None" and "spec_Classifier d (ClusterDelete gkeClient k rrn) = Busy"
  using assms unfolding busy_attempts_def by force+

lemma steps_busy_prefix:
  assumes "n < m"
    and "busy_attempts d ctx gkeClient rrn a (length (clusterDeleteCalls w)) n"
  shows "\<exists>wn ls.
        ExponentialBackoff_steps m dur (RemoveCluster_condition d ctx gkeClient rrn) (a, w) =
          ExponentialBackoff_steps (m - n) dur (RemoveCluster_condition d ctx gkeClient rrn)
            (a + int n, wn) \<and>
        clusterDeleteCalls wn = clusterDeleteCalls w @ replicate n rrn \<and>
        nodePoolDeleteCalls wn = nodePoolDeleteCalls w \<and>
        slept wn = slept w @ replicate n dur \<and>
        logs wn = logs w @ ls \<and> \<not> logs_permanent_error ls"
  using assms
proof (induction n arbitrary: m a w)
  case 0
  have "\<not> logs_permanent_error []" by (simp add: logs_permanent_error_def)
  then show ?case by auto
next
  case (Suc n)
  let ?cond = "RemoveCluster_condition d ctx gkeClient rrn"
  from Suc.prems(1) obtain m' where m: "m = Suc m'" and nm': "n < m'"
    by (cases m) auto
  note first = busy_attempts_first [OF Suc.prems(2)]
  from condition_open [OF first(1) refl, where d = d and gkeClient = gkeClient and w = w
      and rrn = rrn] first(2) obtain l1 where
    c: "?cond (a, w) = ((False, None), a + 1,
          w\<lparr>clusterDeleteCalls := clusterDeleteCalls w @ [rrn], logs := logs w @ l1\<rparr>)"
    and l1: "\<not> logs_permanent_error l1"
    by auto
  define w1 where "w1 = w\<lparr>clusterDeleteCalls := clusterDeleteCalls w @ [rrn],
        logs := logs w @ l1, slept := slept w @ [dur]\<rparr>"
  have step: "ExponentialBackoff_steps m dur ?cond (a, w) =
      ExponentialBackoff_steps m' dur ?cond (a + 1, w1)"
    using nm' by (simp add: m c Sleep_def w1_def)
  have "busy_attempts d ctx gkeClient rrn (a + 1) (length (clusterDeleteCalls w1)) n"
    using busy_attempts_Suc [OF Suc.prems(2)] by (simp add: w1_def)
  from Suc.IH [OF nm' this] obtain wn ls where
    ih: "ExponentialBackoff_steps m' dur ?cond (a + 1, w1) =
          ExponentialBackoff_steps (m' - n) dur ?cond (a + 1 + int n, wn)"
      "clusterDeleteCalls wn = clusterDeleteCalls w1 @ replicate n rrn"
      "nodePoolDeleteCalls wn = nodePoolDeleteCalls w1"
      "slept wn = slept w1 @ replicate n dur"
      "logs wn = logs w1 @ ls" "\<not> logs_permanent_error ls"
    by blast
  have e1: "ExponentialBackoff_steps m dur ?cond (a, w) =
          ExponentialBackoff_steps (m - Suc n) dur ?cond (a + int (Suc n), wn)"
  proof -
    have x: "a + 1 + int n = a + int (Suc n)" and y: "m' - n = m - Suc n"
      by (simp_all add: m)
    from step ih(1) show ?thesis
      unfolding x y by (rule trans)
  qed
  have e2: "clusterDeleteCalls wn = clusterDeleteCalls w @ replicate (Suc n) rrn"
    using ih(2) by (simp add: w1_def)
  have e3: "nodePoolDeleteCalls wn = nodePoolDeleteCalls w"
    using ih(3) by (simp add: w1_def)
  have e4: "slept wn = slept w @ replicate (Suc n) dur"
    using ih(4) by (simp add: w1_def)
  have e5: "logs wn = logs w @ (l1 @ ls)"
    using ih(5) by (simp add: w1_def)
  have e6: "\<not> logs_permanent_error (l1 @ ls)"
    using l1 ih(6) by (auto simp: logs_permanent_error_def)
  from e1 e2 e3 e4 e5 e6 show ?case by blast
qed

section \<open>Cluster deletion as a whole\<close>

lemma backoff_values: "nat (Steps backoff) = 12" "Duration backoff = 30 * Second"
  by (simp_all add: backoff_def backoffSteps_def waitSec_def)

lemma RemoveCluster_unfold:
  "RemoveCluster d ctx gkeClient config w =
     (let r = ExponentialBackoff_steps 12 (30 * Second)
                (RemoveCluster_condition d ctx gkeClient (clusterRRN_of d config))
                (0, w\<lparr>logs := logs w @
                   [Infof ''[DEBUG] Starting RemoveCluster for %s'' [S (clusterRRN_of d config)]]\<rparr>)
      in (fst r, snd (snd r)))"
  by (simp add: RemoveCluster_def ExponentialBackoff_def backoff_values clusterRRN_of_def
        log_def Let_def)

lemma RemoveCluster_busy_prefix:
  assumes "n < 12"
    and "busy_attempts d ctx gkeClient (clusterRRN_of d config) 0 (length (clusterDeleteCalls w)) n"
  shows "\<exists>wn ls. RemoveCluster d ctx gkeClient config w =
           (let r = ExponentialBackoff_steps (12 - n) (30 * Second)
                (RemoveCluster_condition d ctx gkeClient (clusterRRN_of d config)) (int n, wn)
            in (fst r, snd (snd r))) \<and>
        wn = w\<lparr>clusterDeleteCalls := clusterDeleteCalls w @ replicate n (clusterRRN_of d config),
               slept := slept w @ replicate n (30 * Second),
               logs := logs w @ ls\<rparr> \<and>
        \<not> logs_permanent_error ls"
proof -
  let ?rrn = "clusterRRN_of d config"
  let ?cond = "RemoveCluster_condition d ctx gkeClient ?rrn"
  define l0 where "l0 = [Infof ''[DEBUG] Starting RemoveCluster for %s'' [S ?rrn]]"
  define w0 where "w0 = w\<lparr>logs := logs w @ l0\<rparr>"
  have "busy_attempts d ctx gkeClient ?rrn 0 (length (clusterDeleteCalls w0)) n"
    using assms(2) by (simp add: w0_def)
  from steps_busy_prefix [OF assms(1) this, of "30 * Second"] obtain wn ls where
    p: "ExponentialBackoff_steps 12 (30 * Second) ?cond (0, w0) =
        ExponentialBackoff_steps (12 - n) (30 * Second) ?cond (0 + int n, wn)"
      "clusterDeleteCalls wn = clusterDeleteCalls w0 @ replicate n ?rrn"
      "nodePoolDeleteCalls wn = nodePoolDeleteCalls w0"
      "slept wn = slept w0 @ replicate n (30 * Second)"
      "logs wn = logs w0 @ ls" "\<not> logs_permanent_error ls"
    by blast
  have l0: "\<not> logs_permanent_error l0"
    by (simp add: l0_def logs_permanent_error_def permanent_error_format_def)
  have a: "RemoveCluster d ctx gkeClient config w =
           (let r = ExponentialBackoff_steps (12 - n) (30 * Second) ?cond (int n, wn)
            in (fst r, snd (snd r)))"
    using p(1) by (simp add: RemoveCluster_unfold w0_def l0_def)
  have b: "wn = w\<lparr>clusterDeleteCalls := clusterDeleteCalls w @ replicate n ?rrn,
               slept := slept w @ replicate n (30 * Second),
               logs := logs w @ (l0 @ ls)\<rparr>"
    using p(2,3,4,5) by (intro world.equality) (simp_all add: w0_def)
  have c: "\<not> logs_permanent_error (l0 @ ls)"
    using l0 p(6) by (auto simp: logs_permanent_error_def)
  from a b c show ?thesis by blast
qed

text \<open>
  A run in which \<open>n\<close> Busy attempts are followed by an attempt that ends the operation.
\<close>

lemma RemoveCluster_ends:
  assumes "n < 12"
    and "busy_attempts d ctx gkeClient (clusterRRN_of d config) 0 (length (clusterDeleteCalls w)) n"
    and "\<And>wn. clusterDeleteCalls wn = clusterDeleteCalls w @ replicate n (clusterRRN_of d config)
          \<Longrightarrow> \<exists>l. RemoveCluster_condition d ctx gkeClient (clusterRRN_of d config) (int n, wn) =
                 ((ok, err), int n + 1,
                  wn\<lparr>clusterDeleteCalls := clusterDeleteCalls wn @ cs, logs := logs wn @ l\<rparr>) \<and>
               (logs_permanent_error l \<longleftrightarrow> perm)"
    and "err \<noteq> None \<or> ok"
  shows "\<exists>ls. RemoveCluster d ctx gkeClient config w =
           (err,
            w\<lparr>clusterDeleteCalls :=
                clusterDeleteCalls w @ replicate n (clusterRRN_of d config) @ cs,
              slept := slept w @ replicate n (30 * Second),
              logs := logs w @ ls\<rparr>) \<and>
         (logs_permanent_error ls \<longleftrightarrow> perm)"
proof -
  let ?rrn = "clusterRRN_of d config"
  let ?cond = "RemoveCluster_condition d ctx gkeClient ?rrn"
  from RemoveCluster_busy_prefix [OF assms(1,2)] obtain wn ls where
    p: "RemoveCluster d ctx gkeClient config w =
           (let r = ExponentialBackoff_steps (12 - n) (30 * Second) ?cond (int n, wn)
            in (fst r, snd (snd r)))"
    and wn: "wn = w\<lparr>clusterDeleteCalls := clusterDeleteCalls w @ replicate n ?rrn,
               slept := slept w @ replicate n (30 * Second),
               logs := logs w @ ls\<rparr>"
    and ls: "\<not> logs_permanent_error ls"
    by blast
  have "clusterDeleteCalls wn = clusterDeleteCalls w @ replicate n ?rrn"
    by (simp add: wn)
  from assms(3) [OF this] obtain l where
    c: "?cond (int n, wn) = ((ok, err), int n + 1,
          wn\<lparr>clusterDeleteCalls := clusterDeleteCalls wn @ cs, logs := logs wn @ l\<rparr>)"
    and l: "logs_permanent_error l \<longleftrightarrow> perm"
    by blast
  from assms(1) obtain k where k: "12 - n = Suc k"
    by (cases "12 - n") auto
  have "ExponentialBackoff_steps (Suc k) (30 * Second) ?cond (int n, wn) =
          (err, snd (?cond (int n, wn)))"
    by (rule steps_terminal [OF _ assms(4)]) (simp add: c)
  then have "RemoveCluster d ctx gkeClient config w =
      (err, wn\<lparr>clusterDeleteCalls := clusterDeleteCalls wn @ cs, logs := logs wn @ l\<rparr>)"
    by (simp add: p k c)
  then have "RemoveCluster d ctx gkeClient config w =
           (err,
            w\<lparr>clusterDeleteCalls := clusterDeleteCalls w @ replicate n ?rrn @ cs,
              slept := slept w @ replicate n (30 * Second),
              logs := logs w @ (ls @ l)\<rparr>)"
    by (simp add: wn)
  moreover have "logs_permanent_error (ls @ l) \<longleftrightarrow> perm"
    using ls l by (auto simp: logs_permanent_error_def)
  ultimately show ?thesis by blast
qed




section \<open>Node pool deletion: one call, four outcomes\<close>

text \<open>
  Claim C3. \<open>RemoveNodePool\<close> issues exactly one \<open>NodePoolDelete\<close> call and nothing else
  (no cluster call, no sleep, no second attempt), and maps the error of that call: a
  message with the busy marker gives \<open>(Retry, nil)\<close>; otherwise a message with the
  not-found marker gives \<open>(NotChanged, nil)\<close>; any other error \<open>E\<close> gives
  \<open>(NotChanged, E)\<close>, the error unchanged; no error gives \<open>(Changed, nil)\<close>.
\<close>

theorem RemoveNodePool_single_call_outcomes:
  "snd (RemoveNodePool d gkeClient config nodePoolName w) =
     w\<lparr>nodePoolDeleteCalls :=
         nodePoolDeleteCalls w @ [nodePoolRRN_of d config nodePoolName]\<rparr> \<and>
   fst (RemoveNodePool d gkeClient config nodePoolName w) =
     (case NodePoolDelete gkeClient (length (nodePoolDeleteCalls w))
             (nodePoolRRN_of d config nodePoolName) of
        None \<Rightarrow> (Changed, None)
      | Some e \<Rightarrow>
          if Contains (Error e) (errWait d) then (Retry, None)
          else if Contains (Error e) (errNotFound d) then (NotChanged, None)
          else (NotChanged, Some e))"
  by (simp add: RemoveNodePool_def NodePoolDelete_call_def nodePoolRRN_of_def
        split: option.split)

lemma sample_cluster_rrn:
  "clusterRRN_of sample_decls createValidSecurityConfig =
     ''projects//locations//clusters/test-security-cluster''"
  by (simp add: clusterRRN_of_def sample_decls_def createValidSecurityConfig_def)

lemma sample_pool_rrn:
  "nodePoolRRN_of sample_decls createValidSecurityConfig ''default-pool'' =
     ''projects//locations//clusters/test-security-cluster/nodePools/default-pool''"
  by (simp add: nodePoolRRN_of_def sample_decls_def createValidSecurityConfig_def)

lemma sample_errors:
  "spec_Classifier sample_decls (Some busyError) = Busy"
  "spec_Classifier sample_decls (Some notFoundError) = Absent"
  "spec_Classifier sample_decls (Some fatalError) = Fatal"
  "Contains (Error busyNotFoundError) (errWait sample_decls)"
  "Contains (Error busyNotFoundError) (errNotFound sample_decls)"
  by (simp_all add: sample_decls_def busyError_def notFoundError_def fatalError_def
        busyNotFoundError_def)

theorem RemoveNodePool_single_call_outcomes_witness:
  "RemoveNodePool sample_decls (scripted [Some busyError, Some notFoundError])
     createValidSecurityConfig ''default-pool'' emptyWorld =
     ((Retry, None),
      emptyWorld\<lparr>nodePoolDeleteCalls :=
        [''projects//locations//clusters/test-security-cluster/nodePools/default-pool'']\<rparr>) \<and>
   fst (RemoveNodePool sample_decls (always notFoundError)
     createValidSecurityConfig ''default-pool'' emptyWorld) = (NotChanged, None) \<and>
   fst (RemoveNodePool sample_decls (always fatalError)
     createValidSecurityConfig ''default-pool'' emptyWorld) = (NotChanged, Some fatalError) \<and>
   fst (RemoveNodePool sample_decls (scripted [])
     createValidSecurityConfig ''default-pool'' emptyWorld) = (Changed, None)"
proof -
  have c: "\<not> Contains (Error notFoundError) (errWait sample_decls)"
     "Contains (Error notFoundError) (errNotFound sample_decls)"
     "\<not> Contains (Error fatalError) (errWait sample_decls)"
     "\<not> Contains (Error fatalError) (errNotFound sample_decls)"
     "Contains (Error busyError) (errWait sample_decls)"
    using sample_errors(1,2,3) by (simp_all split: if_splits)
  have "RemoveNodePool sample_decls (scripted [Some busyError, Some notFoundError])
     createValidSecurityConfig ''default-pool'' emptyWorld =
     ((Retry, None),
      emptyWorld\<lparr>nodePoolDeleteCalls :=
        [''projects//locations//clusters/test-security-cluster/nodePools/default-pool'']\<rparr>)"
    using RemoveNodePool_single_call_outcomes [of sample_decls
        "scripted [Some busyError, Some notFoundError]" createValidSecurityConfig
        "''default-pool''" emptyWorld]
    by (simp add: prod_eq_iff sample_pool_rrn scripted_def emptyWorld_def c)
  moreover have "fst (RemoveNodePool sample_decls (always notFoundError)
     createValidSecurityConfig ''default-pool'' emptyWorld) = (NotChanged, None)"
    using RemoveNodePool_single_call_outcomes [of sample_decls "always notFoundError"
        createValidSecurityConfig "''default-pool''" emptyWorld]
    by (simp add: always_def c)
  moreover have "fst (RemoveNodePool sample_decls (always fatalError)
     createValidSecurityConfig ''default-pool'' emptyWorld) = (NotChanged, Some fatalError)"
    using RemoveNodePool_single_call_outcomes [of sample_decls "always fatalError"
        createValidSecurityConfig "''default-pool''" emptyWorld]
    by (simp add: always_def c)
  moreover have "fst (RemoveNodePool sample_decls (scripted [])
     createValidSecurityConfig ''default-pool'' emptyWorld) = (Changed, None)"
    using RemoveNodePool_single_call_outcomes [of sample_decls "scripted []"
        createValidSecurityConfig "''default-pool''" emptyWorld]
    by (simp add: scripted_def)
  ultimately show ?thesis by blast
qed

section \<open>Cluster deletion: the exhausted budget\<close>

text \<open>
  Claim C4. When the context stays open and the client answers every \<open>ClusterDelete\<close>
  with a Busy error, \<open>RemoveCluster\<close> makes exactly \<open>backoffSteps\<close> = 12 remote calls,
  sleeps the fixed interval of \<open>waitSec\<close> = 30 seconds between them (11 times) and
  returns the time-out error. Its log has no permanent-error line, the line that every
  attempt ending in a Fatal remote error writes: the two failures can be told apart.
\<close>

theorem RemoveCluster_always_busy_times_out:
  assumes "\<forall>a. Err ctx a = None"
    and "\<forall>k. spec_Classifier d (ClusterDelete gkeClient k (clusterRRN_of d config)) = Busy"
  shows "(\<exists>ls. RemoveCluster d ctx gkeClient config w =
           (Some ErrWaitTimeout,
            w\<lparr>clusterDeleteCalls :=
                clusterDeleteCalls w @ replicate (nat backoffSteps) (clusterRRN_of d config),
              slept := slept w @ replicate (nat backoffSteps - 1) (waitSec * Second),
              logs := logs w @ ls\<rparr>) \<and>
         \<not> logs_permanent_error ls) \<and>
       nat backoffSteps = 12 \<and> waitSec * Second = 30 * 1000000000 \<and>
       (\<forall>gkeClient' a' w' rrn.
          spec_Classifier d (ClusterDelete gkeClient' (length (clusterDeleteCalls w')) rrn) = Fatal
          \<longrightarrow> (\<exists>l. logs (snd (snd (RemoveCluster_condition d ctx gkeClient' rrn (a', w')))) =
                     logs w' @ l \<and> logs_permanent_error l))"
proof -
  let ?rrn = "clusterRRN_of d config"
  let ?cond = "RemoveCluster_condition d ctx gkeClient ?rrn"
  have busy: "busy_attempts d ctx gkeClient ?rrn 0 (length (clusterDeleteCalls w)) 11"
    using assms by (simp add: busy_attempts_def)
  from RemoveCluster_busy_prefix [OF _ busy] obtain wn ls where
    p: "RemoveCluster d ctx gkeClient config w =
           (let r = ExponentialBackoff_steps (12 - 11) (30 * Second) ?cond (int 11, wn)
            in (fst r, snd (snd r)))"
    and wn: "wn = w\<lparr>clusterDeleteCalls := clusterDeleteCalls w @ replicate 11 ?rrn,
               slept := slept w @ replicate 11 (30 * Second),
               logs := logs w @ ls\<rparr>"
    and ls: "\<not> logs_permanent_error ls"
    by auto
  have c: "Err ctx (11 + 1) = None" using assms(1) by blast
  have b: "spec_Classifier d (ClusterDelete gkeClient (length (clusterDeleteCalls wn)) ?rrn) = Busy"
    using assms(2) by blast
  from condition_open [OF c refl, where d = d and gkeClient = gkeClient and w = wn
      and rrn = ?rrn] b obtain l where
    cnd: "?cond (11, wn) = ((False, None), 12,
      wn\<lparr>clusterDeleteCalls := clusterDeleteCalls wn @ [?rrn], logs := logs wn @ l\<rparr>)"
    and l: "\<not> logs_permanent_error l"
    by auto
  have "ExponentialBackoff_steps (Suc 0) (30 * Second) ?cond (11, wn) =
          (Some ErrWaitTimeout, snd (?cond (11, wn)))"
    by (rule steps_last) (simp add: cnd)
  then have res: "RemoveCluster d ctx gkeClient config w =
      (Some ErrWaitTimeout,
       wn\<lparr>clusterDeleteCalls := clusterDeleteCalls wn @ [?rrn], logs := logs wn @ l\<rparr>)"
    using p by (simp add: cnd)
  have r12: "replicate 12 ?rrn = replicate 11 ?rrn @ [?rrn]"
    by (simp add: replicate_append_same numeral_eq_Suc)
  have "RemoveCluster d ctx gkeClient config w =
           (Some ErrWaitTimeout,
            w\<lparr>clusterDeleteCalls := clusterDeleteCalls w @ replicate 12 ?rrn,
              slept := slept w @ replicate 11 (30 * Second),
              logs := logs w @ (ls @ l)\<rparr>)"
    unfolding res r12 by (simp add: wn)
  moreover have "\<not> logs_permanent_error (ls @ l)"
    using l ls by (auto simp: logs_permanent_error_def)
  ultimately have "\<exists>ls. RemoveCluster d ctx gkeClient config w =
           (Some ErrWaitTimeout,
            w\<lparr>clusterDeleteCalls := clusterDeleteCalls w @ replicate 12 ?rrn,
              slept := slept w @ replicate 11 (30 * Second),
              logs := logs w @ ls\<rparr>) \<and>
         \<not> logs_permanent_error ls"
    by blast
  then have first: "\<exists>ls. RemoveCluster d ctx gkeClient config w =
           (Some ErrWaitTimeout,
            w\<lparr>clusterDeleteCalls :=
                clusterDeleteCalls w @ replicate (nat backoffSteps) ?rrn,
              slept := slept w @ replicate (nat backoffSteps - 1) (waitSec * Second),
              logs := logs w @ ls\<rparr>) \<and>
         \<not> logs_permanent_error ls"
    by (simp add: backoffSteps_def waitSec_def)
  have numbers: "nat backoffSteps = 12" "waitSec * Second = 30 * 1000000000"
    by (simp_all add: backoffSteps_def waitSec_def Second_def)
  have fatal: "\<exists>l. logs (snd (snd (RemoveCluster_condition d ctx gkeClient' rrn (a', w')))) =
                     logs w' @ l \<and> logs_permanent_error l"
    if f: "spec_Classifier d (ClusterDelete gkeClient' (length (clusterDeleteCalls w')) rrn) = Fatal"
    for gkeClient' a' w' rrn
  proof -
    have "Err ctx (a' + 1) = None" using assms(1) by blast
    from condition_open [OF this refl, where d = d and gkeClient = gkeClient' and w = w'
      and rrn = rrn] f
    obtain l where "snd (snd (RemoveCluster_condition d ctx gkeClient' rrn (a', w'))) =
        w'\<lparr>clusterDeleteCalls := clusterDeleteCalls w' @ [rrn], logs := logs w' @ l\<rparr>"
      and "logs_permanent_error l"
      by force
    then show ?thesis by simp
  qed
  from first numbers fatal show ?thesis by blast
qed

theorem RemoveCluster_always_busy_times_out_witness:
  "(\<exists>ls. RemoveCluster sample_decls Background (always busyError) createValidSecurityConfig
           emptyWorld =
           (Some ErrWaitTimeout,
            \<lparr>clusterDeleteCalls =
                replicate 12 ''projects//locations//clusters/test-security-cluster'',
              nodePoolDeleteCalls = [],
              slept = replicate 11 30000000000,
              logs = ls\<rparr>) \<and>
         \<not> logs_permanent_error ls) \<and>
   (\<exists>l. logs (snd (snd (RemoveCluster_condition sample_decls Background (always fatalError)
             ''rrn'' (0, emptyWorld)))) = l \<and> logs_permanent_error l)"
proof -
  have h1: "\<forall>a. Err Background a = None"
    by (simp add: Background_def)
  have h2: "\<forall>k. spec_Classifier sample_decls (ClusterDelete (always busyError) k
              (clusterRRN_of sample_decls createValidSecurityConfig)) = Busy"
    using sample_errors(1) by (simp add: always_def)
  have f: "spec_Classifier sample_decls (ClusterDelete (always fatalError)
             (length (clusterDeleteCalls emptyWorld)) ''rrn'') = Fatal"
    using sample_errors(3) by (simp add: always_def)
  note t = RemoveCluster_always_busy_times_out [OF h1 h2, of emptyWorld]
  from t have "\<exists>ls. RemoveCluster sample_decls Background (always busyError)
           createValidSecurityConfig emptyWorld =
           (Some ErrWaitTimeout,
            \<lparr>clusterDeleteCalls =
                replicate 12 ''projects//locations//clusters/test-security-cluster'',
              nodePoolDeleteCalls = [],
              slept = replicate 11 30000000000,
              logs = ls\<rparr>) \<and>
         \<not> logs_permanent_error ls"
    by (simp add: sample_cluster_rrn emptyWorld_def backoffSteps_def waitSec_def Second_def)
  moreover from t f have "\<exists>l. logs (snd (snd (RemoveCluster_condition sample_decls Background
             (always fatalError) ''rrn'' (0, emptyWorld)))) = logs emptyWorld @ l \<and>
             logs_permanent_error l"
    by blast
  then have "\<exists>l. logs (snd (snd (RemoveCluster_condition sample_decls Background
             (always fatalError) ''rrn'' (0, emptyWorld)))) = l \<and> logs_permanent_error l"
    by (simp add: emptyWorld_def)
  ultimately show ?thesis by blast
qed

lemma spec_attempt_ends:
  assumes "spec_Classifier d err \<noteq> Busy"
  shows "snd (spec_attempt (spec_Classifier d err) err) \<noteq> None \<or>
         fst (spec_attempt (spec_Classifier d err) err)"
  using assms by (cases err) auto

lemma spec_attempt_result:
  assumes "spec_Classifier d err \<noteq> Busy"
  shows "snd (spec_attempt (spec_Classifier d err) err) =
           (if spec_Classifier d err = Fatal then err else None)"
  using assms by (cases err) auto

text \<open>
  A run in which \<open>n\<close> Busy attempts are followed by an attempt that finds the context
  open and gets an answer that is not Busy.
\<close>

lemma RemoveCluster_ends_open:
  assumes "n < 12"
    and "busy_attempts d ctx gkeClient (clusterRRN_of d config) 0 (length (clusterDeleteCalls w)) n"
    and "Err ctx (int n + 1) = None"
    and "err = ClusterDelete gkeClient (length (clusterDeleteCalls w) + n) (clusterRRN_of d config)"
    and "spec_Classifier d err \<noteq> Busy"
  shows "\<exists>ls. RemoveCluster d ctx gkeClient config w =
           (if spec_Classifier d err = Fatal then err else None,
            w\<lparr>clusterDeleteCalls :=
                clusterDeleteCalls w @ replicate (Suc n) (clusterRRN_of d config),
              slept := slept w @ replicate n (30 * Second),
              logs := logs w @ ls\<rparr>) \<and>
         (logs_permanent_error ls \<longleftrightarrow> spec_Classifier d err = Fatal)"
proof -
  let ?rrn = "clusterRRN_of d config"
  let ?r = "spec_attempt (spec_Classifier d err) err"
  have cond: "\<exists>l. RemoveCluster_condition d ctx gkeClient ?rrn (int n, wn) =
                 ((fst ?r, snd ?r), int n + 1,
                  wn\<lparr>clusterDeleteCalls := clusterDeleteCalls wn @ [?rrn],
                     logs := logs wn @ l\<rparr>) \<and>
               (logs_permanent_error l \<longleftrightarrow> spec_Classifier d err = Fatal)"
    if "clusterDeleteCalls wn = clusterDeleteCalls w @ replicate n ?rrn" for wn
  proof -
    have "err = ClusterDelete gkeClient (length (clusterDeleteCalls wn)) ?rrn"
      using assms(4) that by simp
    from condition_open [OF assms(3) this] show ?thesis by simp
  qed
  from RemoveCluster_ends [OF assms(1,2) cond spec_attempt_ends [OF assms(5)]]
  obtain ls where
    "RemoveCluster d ctx gkeClient config w =
           (snd ?r,
            w\<lparr>clusterDeleteCalls := clusterDeleteCalls w @ replicate n ?rrn @ [?rrn],
              slept := slept w @ replicate n (30 * Second),
              logs := logs w @ ls\<rparr>)"
    and "logs_permanent_error ls \<longleftrightarrow> spec_Classifier d err = Fatal"
    by blast
  then show ?thesis
    by (simp add: spec_attempt_result [OF assms(5)] replicate_append_same) blast
qed

lemma RemoveCluster_ends_cancelled:
  assumes "n < 12"
    and "busy_attempts d ctx gkeClient (clusterRRN_of d config) 0 (length (clusterDeleteCalls w)) n"
    and "Err ctx (int n + 1) = Some e"
  shows "\<exists>ls. RemoveCluster d ctx gkeClient config w =
           (Some e,
            w\<lparr>clusterDeleteCalls := clusterDeleteCalls w @ replicate n (clusterRRN_of d config),
              slept := slept w @ replicate n (30 * Second),
              logs := logs w @ ls\<rparr>)"
proof -
  let ?rrn = "clusterRRN_of d config"
  have cond: "\<exists>l. RemoveCluster_condition d ctx gkeClient ?rrn (int n, wn) =
                 ((False, Some e), int n + 1,
                  wn\<lparr>clusterDeleteCalls := clusterDeleteCalls wn @ [], logs := logs wn @ l\<rparr>) \<and>
               (logs_permanent_error l \<longleftrightarrow> False)"
    for wn
    using condition_cancelled [OF assms(3), of d gkeClient ?rrn wn] by simp
  have "Some e \<noteq> None \<or> False" by simp
  from RemoveCluster_ends [OF assms(1,2) cond this]
  show ?thesis by simp blast
qed

section \<open>Cluster deletion: success after Busy attempts\<close>

text \<open>
  Claim C5. For every \<open>N\<close> below the attempt budget: when each of the first \<open>N\<close>
  attempts finds the context open and gets a Busy error, and attempt \<open>N + 1\<close> finds the
  context open and gets no error, \<open>RemoveCluster\<close> returns \<open>nil\<close> after exactly \<open>N + 1\<close>
  remote calls, having slept \<open>N\<close> times.
\<close>

theorem RemoveCluster_busy_then_success:
  assumes "int N < backoffSteps"
    and "busy_attempts d ctx gkeClient (clusterRRN_of d config) 0 (length (clusterDeleteCalls w)) N"
    and "Err ctx (int N + 1) = None"
    and "ClusterDelete gkeClient (length (clusterDeleteCalls w) + N) (clusterRRN_of d config) = None"
  shows "fst (RemoveCluster d ctx gkeClient config w) = None \<and>
         clusterDeleteCalls (snd (RemoveCluster d ctx gkeClient config w)) =
           clusterDeleteCalls w @ replicate (N + 1) (clusterRRN_of d config) \<and>
         slept (snd (RemoveCluster d ctx gkeClient config w)) =
           slept w @ replicate N (waitSec * Second)"
proof -
  have n: "N < 12" using assms(1) by (simp add: backoffSteps_def)
  have c: "spec_Classifier d None \<noteq> Busy" by simp
  from RemoveCluster_ends_open [OF n assms(2,3) assms(4) [symmetric] c]
  show ?thesis by (auto simp: waitSec_def)
qed

theorem RemoveCluster_busy_then_success_witness:
  "fst (RemoveCluster sample_decls Background
          (scripted [Some busyError, Some busyError, Some busyError, None])
          createValidSecurityConfig emptyWorld) = None \<and>
   clusterDeleteCalls (snd (RemoveCluster sample_decls Background
          (scripted [Some busyError, Some busyError, Some busyError, None])
          createValidSecurityConfig emptyWorld)) =
     replicate 4 ''projects//locations//clusters/test-security-cluster'' \<and>
   slept (snd (RemoveCluster sample_decls Background
          (scripted [Some busyError, Some busyError, Some busyError, None])
          createValidSecurityConfig emptyWorld)) = replicate 3 30000000000"
proof -
  let ?client = "scripted [Some busyError, Some busyError, Some busyError, None]"
  have h1: "int 3 < backoffSteps" by (simp add: backoffSteps_def)
  have h2: "busy_attempts sample_decls Background ?client
      (clusterRRN_of sample_decls createValidSecurityConfig) 0
      (length (clusterDeleteCalls emptyWorld)) 3"
    using sample_errors(1)
    by (simp add: busy_attempts_def Background_def scripted_def emptyWorld_def
          less_Suc_eq numeral_3_eq_3)
  have h3: "Err Background (int 3 + 1) = None" by (simp add: Background_def)
  have h4: "ClusterDelete ?client (length (clusterDeleteCalls emptyWorld) + 3)
      (clusterRRN_of sample_decls createValidSecurityConfig) = None"
    by (simp add: scripted_def emptyWorld_def)
  from RemoveCluster_busy_then_success [OF h1 h2 h3 h4]
  show ?thesis
    by (simp add: sample_cluster_rrn emptyWorld_def waitSec_def Second_def)
qed

section \<open>Cluster deletion: the cluster is already gone\<close>

text \<open>
  Claim C7. When the first attempt finds the context open and gets an Absent (not found)
  error, \<open>RemoveCluster\<close> returns \<open>nil\<close> after that one remote call, without sleeping:
  the error is not handed to the caller.
\<close>

theorem RemoveCluster_absent_is_success:
  assumes "Err ctx 1 = None"
    and "spec_Classifier d
           (ClusterDelete gkeClient (length (clusterDeleteCalls w)) (clusterRRN_of d config)) =
         Absent"
  shows "fst (RemoveCluster d ctx gkeClient config w) = None \<and>
         clusterDeleteCalls (snd (RemoveCluster d ctx gkeClient config w)) =
           clusterDeleteCalls w @ [clusterRRN_of d config] \<and>
         slept (snd (RemoveCluster d ctx gkeClient config w)) = slept w"
proof -
  let ?err = "ClusterDelete gkeClient (length (clusterDeleteCalls w) + 0) (clusterRRN_of d config)"
  have b: "busy_attempts d ctx gkeClient (clusterRRN_of d config) 0
             (length (clusterDeleteCalls w)) 0"
    by (simp add: busy_attempts_def)
  have c: "Err ctx (int 0 + 1) = None" using assms(1) by simp
  have a: "spec_Classifier d ?err = Absent" using assms(2) by simp
  then have nb: "spec_Classifier d ?err \<noteq> Busy" by simp
  from RemoveCluster_ends_open [OF _ b c refl nb] a
  show ?thesis by auto
qed

theorem RemoveCluster_absent_is_success_witness:
  "fst (RemoveCluster sample_decls Background (always notFoundError)
          createValidSecurityConfig emptyWorld) = None \<and>
   clusterDeleteCalls (snd (RemoveCluster sample_decls Background (always notFoundError)
          createValidSecurityConfig emptyWorld)) =
     [''projects//locations//clusters/test-security-cluster''] \<and>
   slept (snd (RemoveCluster sample_decls Background (always notFoundError)
          createValidSecurityConfig emptyWorld)) = []"
proof -
  have h1: "Err Background 1 = None" by (simp add: Background_def)
  have h2: "spec_Classifier sample_decls
           (ClusterDelete (always notFoundError) (length (clusterDeleteCalls emptyWorld))
              (clusterRRN_of sample_decls createValidSecurityConfig)) = Absent"
    using sample_errors(2) by (simp add: always_def)
  from RemoveCluster_absent_is_success [OF h1 h2]
  show ?thesis by (simp add: sample_cluster_rrn emptyWorld_def)
qed

section \<open>Cluster deletion: cancellation\<close>

text \<open>
  Claim C9. When an attempt of \<open>RemoveCluster\<close> finds the context done, be it the first
  attempt (\<open>n = 0\<close>) or one that follows \<open>n\<close> Busy attempts, \<open>RemoveCluster\<close> returns the
  context's error at once: the remote calls are those of the \<open>n\<close> earlier attempts, none is
  made on this attempt or after it, and no further sleep happens.
\<close>

theorem RemoveCluster_cancelled_makes_no_call:
  assumes "int n < backoffSteps"
    and "busy_attempts d ctx gkeClient (clusterRRN_of d config) 0 (length (clusterDeleteCalls w)) n"
    and "Err ctx (int n + 1) = Some e"
  shows "fst (RemoveCluster d ctx gkeClient config w) = Some e \<and>
         clusterDeleteCalls (snd (RemoveCluster d ctx gkeClient config w)) =
           clusterDeleteCalls w @ replicate n (clusterRRN_of d config) \<and>
         slept (snd (RemoveCluster d ctx gkeClient config w)) =
           slept w @ replicate n (waitSec * Second)"
proof -
  have n: "n < 12" using assms(1) by (simp add: backoffSteps_def)
  from RemoveCluster_ends_cancelled [OF n assms(2,3)]
  show ?thesis by (auto simp: waitSec_def)
qed

theorem RemoveCluster_cancelled_makes_no_call_witness:
  "fst (RemoveCluster sample_decls (cancelledFrom 1) (always busyError)
          createValidSecurityConfig emptyWorld) = Some Canceled \<and>
   clusterDeleteCalls (snd (RemoveCluster sample_decls (cancelledFrom 1) (always busyError)
          createValidSecurityConfig emptyWorld)) = [] \<and>
   fst (RemoveCluster sample_decls (cancelledFrom 3) (always busyError)
          createValidSecurityConfig emptyWorld) = Some Canceled \<and>
   clusterDeleteCalls (snd (RemoveCluster sample_decls (cancelledFrom 3) (always busyError)
          createValidSecurityConfig emptyWorld)) =
     replicate 2 ''projects//locations//clusters/test-security-cluster'' \<and>
   slept (snd (RemoveCluster sample_decls (cancelledFrom 3) (always busyError)
          createValidSecurityConfig emptyWorld)) = replicate 2 30000000000"
proof -
  have a1: "int 0 < backoffSteps" and a2: "int 2 < backoffSteps"
    by (simp_all add: backoffSteps_def)
  have b1: "busy_attempts sample_decls (cancelledFrom 1) (always busyError)
      (clusterRRN_of sample_decls createValidSecurityConfig) 0
      (length (clusterDeleteCalls emptyWorld)) 0"
    by (simp add: busy_attempts_def)
  have b2: "busy_attempts sample_decls (cancelledFrom 3) (always busyError)
      (clusterRRN_of sample_decls createValidSecurityConfig) 0
      (length (clusterDeleteCalls emptyWorld)) 2"
    using sample_errors(1)
    by (simp add: busy_attempts_def cancelledFrom_def always_def less_Suc_eq numeral_2_eq_2)
  have c1: "Err (cancelledFrom 1) (int 0 + 1) = Some Canceled"
    and c2: "Err (cancelledFrom 3) (int 2 + 1) = Some Canceled"
    by (simp_all add: cancelledFrom_def)
  from RemoveCluster_cancelled_makes_no_call [OF a1 b1 c1]
    RemoveCluster_cancelled_makes_no_call [OF a2 b2 c2]
  show ?thesis
    by (simp add: sample_cluster_rrn emptyWorld_def waitSec_def Second_def)
qed

section \<open>The classification of errors\<close>

text \<open>
  Claim C6. Both deletion paths treat the error of their remote call as the Error
  Classifier of the specification says (\<open>spec_Classifier\<close>: \<open>nil\<close> is no error; a message
  with the busy marker is Busy; otherwise a message with the not-found marker is Absent;
  any other error is Fatal). \<open>RemoveNodePool\<close> returns the outcome that belongs to the
  class. An attempt of \<open>RemoveCluster\<close> that finds the context open reports what belongs to
  the class. A Fatal error ends \<open>RemoveCluster\<close> at once: it is returned as it is, the
  attempt that got it is the last remote call, and no sleep follows.
\<close>

theorem errors_are_classified:
  assumes "errN = NodePoolDelete gkeClient (length (nodePoolDeleteCalls w))
                    (nodePoolRRN_of d config nodePoolName)"
    and "errA = ClusterDelete gkeClient (length (clusterDeleteCalls w)) rrn"
    and "errC = ClusterDelete gkeClient (length (clusterDeleteCalls w) + n)
                  (clusterRRN_of d config)"
  shows "fst (RemoveNodePool d gkeClient config nodePoolName w) =
           spec_outcome (spec_Classifier d errN) errN \<and>
         (Err ctx (a + 1) = None \<longrightarrow>
            fst (RemoveCluster_condition d ctx gkeClient rrn (a, w)) =
              spec_attempt (spec_Classifier d errA) errA) \<and>
         (int n < backoffSteps \<and>
          busy_attempts d ctx gkeClient (clusterRRN_of d config) 0
            (length (clusterDeleteCalls w)) n \<and>
          Err ctx (int n + 1) = None \<and> spec_Classifier d errC = Fatal \<longrightarrow>
            fst (RemoveCluster d ctx gkeClient config w) = errC \<and>
            clusterDeleteCalls (snd (RemoveCluster d ctx gkeClient config w)) =
              clusterDeleteCalls w @ replicate (n + 1) (clusterRRN_of d config) \<and>
            slept (snd (RemoveCluster d ctx gkeClient config w)) =
              slept w @ replicate n (waitSec * Second))"
proof (intro conjI impI)
  show "fst (RemoveNodePool d gkeClient config nodePoolName w) =
           spec_outcome (spec_Classifier d errN) errN"
  proof -
    have e: "NodePoolDelete gkeClient (length (nodePoolDeleteCalls w))
               (NodePoolRRN d (ProjectID (Spec config))
                  (Location d (Region (Spec config)) (Zone (Spec config)))
                  (ClusterName (Spec config)) nodePoolName) = errN"
      using assms(1) by (simp add: nodePoolRRN_of_def)
    show ?thesis
      by (cases errN) (simp_all add: RemoveNodePool_def NodePoolDelete_call_def e)
  qed
next
  assume "Err ctx (a + 1) = None"
  from condition_open [OF this assms(2), where d = d]
  show "fst (RemoveCluster_condition d ctx gkeClient rrn (a, w)) =
              spec_attempt (spec_Classifier d errA) errA"
    by force
next
  assume h: "int n < backoffSteps \<and>
          busy_attempts d ctx gkeClient (clusterRRN_of d config) 0
            (length (clusterDeleteCalls w)) n \<and>
          Err ctx (int n + 1) = None \<and> spec_Classifier d errC = Fatal"
  then have n: "n < 12" and nb: "spec_Classifier d errC \<noteq> Busy"
    by (simp_all add: backoffSteps_def)
  from h RemoveCluster_ends_open [OF n _ _ assms(3) nb]
  obtain ls where r: "RemoveCluster d ctx gkeClient config w =
           (errC,
            w\<lparr>clusterDeleteCalls :=
                clusterDeleteCalls w @ replicate (Suc n) (clusterRRN_of d config),
              slept := slept w @ replicate n (30 * Second),
              logs := logs w @ ls\<rparr>)"
    by auto
  show "fst (RemoveCluster d ctx gkeClient config w) = errC"
    by (simp add: r)
  show "clusterDeleteCalls (snd (RemoveCluster d ctx gkeClient config w)) =
              clusterDeleteCalls w @ replicate (n + 1) (clusterRRN_of d config)"
    by (simp add: r)
  show "slept (snd (RemoveCluster d ctx gkeClient config w)) =
              slept w @ replicate n (waitSec * Second)"
    by (simp add: r waitSec_def)
qed

theorem errors_are_classified_witness:
  "fst (RemoveNodePool sample_decls (always fatalError) createValidSecurityConfig
          ''default-pool'' emptyWorld) = (NotChanged, Some fatalError) \<and>
   fst (RemoveCluster_condition sample_decls Background (always notFoundError) ''rrn''
          (0, emptyWorld)) = (True, None) \<and>
   fst (RemoveCluster sample_decls Background (scripted [Some busyError, Some fatalError])
          createValidSecurityConfig emptyWorld) = Some fatalError \<and>
   clusterDeleteCalls (snd (RemoveCluster sample_decls Background
          (scripted [Some busyError, Some fatalError]) createValidSecurityConfig emptyWorld)) =
     replicate 2 ''projects//locations//clusters/test-security-cluster'' \<and>
   slept (snd (RemoveCluster sample_decls Background
          (scripted [Some busyError, Some fatalError]) createValidSecurityConfig emptyWorld)) =
     [30000000000]"
proof -
  let ?script = "scripted [Some busyError, Some fatalError]"
  have n: "fst (RemoveNodePool sample_decls (always fatalError) createValidSecurityConfig
          ''default-pool'' emptyWorld) = (NotChanged, Some fatalError)"
    using errors_are_classified [OF refl refl refl, where d = sample_decls
        and gkeClient = "always fatalError" and config = createValidSecurityConfig
        and nodePoolName = "''default-pool''" and w = emptyWorld] sample_errors(3)
    by (simp add: always_def)
  have o: "Err Background (0 + 1) = None" by (simp add: Background_def)
  have a: "fst (RemoveCluster_condition sample_decls Background (always notFoundError) ''rrn''
          (0, emptyWorld)) = (True, None)"
    using errors_are_classified [OF refl refl refl, where d = sample_decls
        and ctx = Background and a = 0 and gkeClient = "always notFoundError"
        and rrn = "''rrn''" and w = emptyWorld] o sample_errors(2)
    by (simp add: always_def)
  have h1: "int 1 < backoffSteps" by (simp add: backoffSteps_def)
  have h2: "busy_attempts sample_decls Background ?script
      (clusterRRN_of sample_decls createValidSecurityConfig) 0
      (length (clusterDeleteCalls emptyWorld)) 1"
    using sample_errors(1)
    by (simp add: busy_attempts_def Background_def scripted_def emptyWorld_def)
  have h3: "Err Background (int 1 + 1) = None" by (simp add: Background_def)
  have h4: "ClusterDelete ?script (length (clusterDeleteCalls emptyWorld) + 1)
      (clusterRRN_of sample_decls createValidSecurityConfig) = Some fatalError"
    by (simp add: scripted_def emptyWorld_def)
  have h5: "spec_Classifier sample_decls (ClusterDelete ?script
      (length (clusterDeleteCalls emptyWorld) + 1)
      (clusterRRN_of sample_decls createValidSecurityConfig)) = Fatal"
    unfolding h4 by (rule sample_errors(3))
  note t = errors_are_classified [OF refl refl refl, where d = sample_decls
        and ctx = Background and n = 1 and gkeClient = ?script
        and config = createValidSecurityConfig and w = emptyWorld]
  from t h1 h2 h3 h5 have "fst (RemoveCluster sample_decls Background ?script
          createValidSecurityConfig emptyWorld) =
        ClusterDelete ?script (length (clusterDeleteCalls emptyWorld) + 1)
          (clusterRRN_of sample_decls createValidSecurityConfig) \<and>
   clusterDeleteCalls (snd (RemoveCluster sample_decls Background ?script
          createValidSecurityConfig emptyWorld)) =
     clusterDeleteCalls emptyWorld @
       replicate (1 + 1) (clusterRRN_of sample_decls createValidSecurityConfig) \<and>
   slept (snd (RemoveCluster sample_decls Background ?script createValidSecurityConfig
          emptyWorld)) = slept emptyWorld @ replicate 1 (waitSec * Second)"
    by blast
  then have c: "fst (RemoveCluster sample_decls Background ?script createValidSecurityConfig
          emptyWorld) = Some fatalError \<and>
   clusterDeleteCalls (snd (RemoveCluster sample_decls Background ?script
          createValidSecurityConfig emptyWorld)) =
     replicate 2 ''projects//locations//clusters/test-security-cluster'' \<and>
   slept (snd (RemoveCluster sample_decls Background ?script createValidSecurityConfig
          emptyWorld)) = [30000000000]"
    unfolding h4
    by (simp add: sample_cluster_rrn emptyWorld_def waitSec_def Second_def numeral_2_eq_2)
  from n a c show ?thesis by blast
qed

section \<open>Both markers in one message\<close>



section \<open>The checklist\<close>

lemma first_violation_None: "first_violation xs = None \<longleftrightarrow> list_all fst xs"
  by (induction xs rule: first_violation.induct) auto

lemma first_violation_Some:
  "first_violation xs = Some v \<longleftrightarrow>
     (\<exists>pre post. xs = pre @ (False, v) # post \<and> list_all fst pre)"
proof (induction xs rule: first_violation.induct)
  case 1
  then show ?case by simp
next
  case (2 ok u rest)
  show ?case
  proof (cases ok)
    case True
    show ?thesis
    proof
      assume "first_violation ((ok, u) # rest) = Some v"
      with True 2 obtain pre post where "rest = pre @ (False, v) # post" "list_all fst pre"
        by auto
      then have "(ok, u) # rest = ((ok, u) # pre) @ (False, v) # post \<and>
          list_all fst ((ok, u) # pre)"
        using True by simp
      then show "\<exists>pre post. (ok, u) # rest = pre @ (False, v) # post \<and> list_all fst pre"
        by blast
    next
      assume "\<exists>pre post. (ok, u) # rest = pre @ (False, v) # post \<and> list_all fst pre"
      then obtain pre post where
        e: "(ok, u) # rest = pre @ (False, v) # post" and p: "list_all fst pre"
        by blast
      from e True obtain pre' where "pre = (ok, u) # pre'"
        by (cases pre) auto
      with e p have "rest = pre' @ (False, v) # post \<and> list_all fst pre'"
        by simp
      with True 2 show "first_violation ((ok, u) # rest) = Some v"
        by auto
    qed
  next
    case False
    show ?thesis
    proof
      assume "first_violation ((ok, u) # rest) = Some v"
      with False have "(ok, u) # rest = [] @ (False, v) # rest \<and> list_all fst []"
        by simp
      then show "\<exists>pre post. (ok, u) # rest = pre @ (False, v) # post \<and> list_all fst pre"
        by blast
    next
      assume "\<exists>pre post. (ok, u) # rest = pre @ (False, v) # post \<and> list_all fst pre"
      then obtain pre post where
        e: "(ok, u) # rest = pre @ (False, v) # post" and p: "list_all fst pre"
        by blast
      have "pre = []"
      proof (cases pre)
        case Nil
        then show ?thesis .
      next
        case (Cons x pre')
        with e p False show ?thesis by auto
      qed
      with e False show "first_violation ((ok, u) # rest) = Some v"
        by simp
    qed
  qed
qed

lemma pool_checks_first:
  "first_violation (spec_pool_checks (i, nodePool) @ others) =
     (case Config nodePool of
        None \<Rightarrow>
          Some (New (''node pool '' @ Itoa i @ '' config cannot be nil for security compliance''))
      | Some c \<Rightarrow>
          if (case ShieldedInstanceConfig c of
                None \<Rightarrow> True
              | Some sic \<Rightarrow> \<not> EnableIntegrityMonitoring sic \<or> \<not> EnableSecureBoot sic)
          then Some (New (''node pool '' @ Itoa i @
                 '' must have shielded instance config with integrity monitoring and secure boot enabled''))
          else if (case WorkloadMetadataConfig c of
                     None \<Rightarrow> True
                   | Some wmc \<Rightarrow> Mode wmc \<noteq> ''GKE_METADATA'')
          then Some (New (''node pool '' @ Itoa i @
                 '' must use GKE_METADATA mode for security compliance''))
          else first_violation others)"
  by (auto simp: spec_pool_checks_def spec_pool_has_config_def spec_pool_shielded_def
        spec_pool_gke_metadata_def split: option.split)

lemma validateNodePools_checks:
  "validateNodePools i pools =
     first_violation (concat (map spec_pool_checks (enumerate i pools)))"
proof (induction pools arbitrary: i)
  case Nil
  then show ?case by simp
next
  case (Cons nodePool rest)
  show ?case
    using Cons.IH [of "Suc i"]
    by (cases "Config nodePool") (simp_all add: pool_checks_first)
qed

lemma pool_checks_one:
  "list_all fst (spec_pool_checks (i, np)) \<longleftrightarrow>
     spec_pool_has_config np \<and> spec_pool_shielded np \<and> spec_pool_gke_metadata np"
  by (simp add: spec_pool_checks_def)

lemma pool_checks_all:
  "list_all fst (concat (map spec_pool_checks (enumerate i pools))) \<longleftrightarrow>
     list_all (\<lambda>np. spec_pool_has_config np \<and> spec_pool_shielded np \<and> spec_pool_gke_metadata np)
       pools"
  by (induction pools arbitrary: i) (simp_all add: pool_checks_one)

lemma validate_checklist:
  "validateSecurityCompliance config = first_violation (spec_checklist config)"
proof -
  let ?s = "Spec config"
  have r1: "(case EnableKubernetesAlpha ?s of None \<Rightarrow> False | Some alpha \<Rightarrow> alpha) =
      (\<not> spec_alpha_disabled ?s)"
    by (simp add: spec_alpha_disabled_def split: option.split)
  have r2: "(case PrivateClusterConfig ?s of
                 None \<Rightarrow> True | Some pcc \<Rightarrow> \<not> EnablePrivateNodes pcc) =
      (\<not> spec_private_nodes ?s)"
    by (simp add: spec_private_nodes_def split: option.split)
  have r3: "(case BinaryAuthorization ?s of
                 None \<Rightarrow> True | Some ba \<Rightarrow> \<not> GKEBinaryAuthorization.Enabled ba) =
      (\<not> spec_binary_authorization ?s)"
    by (simp add: spec_binary_authorization_def split: option.split)
  have r4: "(case ShieldedNodes ?s of
                 None \<Rightarrow> True | Some sn \<Rightarrow> \<not> GKEShieldedNodes.Enabled sn) =
      (\<not> spec_shielded_nodes ?s)"
    by (simp add: spec_shielded_nodes_def split: option.split)
  have r5: "(case LegacyAbac ?s of
                 None \<Rightarrow> False | Some la \<Rightarrow> GKELegacyAbac.Enabled la) =
      (\<not> spec_legacy_abac_disabled ?s)"
    by (simp add: spec_legacy_abac_disabled_def split: option.split)
  have r6: "(case MasterAuth ?s of
                 None \<Rightarrow> False | Some ma \<Rightarrow> Username ma \<noteq> [] \<or> Password ma \<noteq> []) =
      (\<not> spec_no_basic_auth ?s)"
    by (simp add: spec_no_basic_auth_def split: option.split)
  have r7: "(case MasterAuth ?s of
                 None \<Rightarrow> False
               | Some ma \<Rightarrow>
                   (case ClientCertificateConfig ma of
                      None \<Rightarrow> False | Some ccc \<Rightarrow> IssueClientCertificate ccc)) =
      (\<not> spec_no_client_certificate ?s)"
    by (simp add: spec_no_client_certificate_def split: option.split)
  have r8: "(case DatabaseEncryption ?s of
                 None \<Rightarrow> True | Some de \<Rightarrow> State de \<noteq> ''ENCRYPTED'') =
      (\<not> spec_database_encrypted ?s)"
    by (simp add: spec_database_encrypted_def split: option.split)
  show ?thesis
    unfolding validateSecurityCompliance_def Let_def r1 r2 r3 r4 r5 r6 r7 r8 spec_checklist_def
    by (simp add: validateNodePools_checks)
qed

section \<open>Compliant configurations pass, all others are rejected\<close>

text \<open>
  Claim C1. \<open>validateSecurityCompliance\<close> returns \<open>nil\<close> for every configuration that
  satisfies the eight rules of the checklist, and a violation for every configuration
  that breaks a rule, so in particular for one that differs from a compliant
  configuration in a single broken rule.
\<close>

theorem validateSecurityCompliance_accepts_exactly_compliant:
  "(spec_compliant config \<longrightarrow> validateSecurityCompliance config = None) \<and>
   (\<not> spec_compliant config \<longrightarrow> validateSecurityCompliance config \<noteq> None)"
proof -
  have "list_all fst (spec_checklist config) \<longleftrightarrow> spec_compliant config"
    by (simp add: spec_checklist_def spec_compliant_def spec_master_auth_def
          spec_node_pools_def pool_checks_all conj_assoc)
  then have "validateSecurityCompliance config = None \<longleftrightarrow> spec_compliant config"
    by (simp add: validate_checklist first_violation_None)
  then show ?thesis by blast
qed

lemma createValidSecurityConfig_compliant: "spec_compliant createValidSecurityConfig"
  by (simp add: spec_compliant_def createValidSecurityConfig_def spec_alpha_disabled_def
        spec_private_nodes_def spec_binary_authorization_def spec_shielded_nodes_def
        spec_legacy_abac_disabled_def spec_master_auth_def spec_no_basic_auth_def
        spec_no_client_certificate_def spec_database_encrypted_def spec_node_pools_def
        spec_pool_has_config_def spec_pool_shielded_def spec_pool_gke_metadata_def)

theorem validateSecurityCompliance_accepts_exactly_compliant_witness:
  "validateSecurityCompliance createValidSecurityConfig = None \<and>
   validateSecurityCompliance
     (createValidSecurityConfig
        \<lparr>Spec := (Spec createValidSecurityConfig)\<lparr>EnableKubernetesAlpha := Some True\<rparr>\<rparr>) \<noteq> None \<and>
   validateSecurityCompliance
     (createValidSecurityConfig
        \<lparr>Spec := (Spec createValidSecurityConfig)\<lparr>PrivateClusterConfig := None\<rparr>\<rparr>) \<noteq> None \<and>
   validateSecurityCompliance
     (createValidSecurityConfig
        \<lparr>Spec := (Spec createValidSecurityConfig)
           \<lparr>NodePools :=
              [\<lparr>Config = Some \<lparr>ShieldedInstanceConfig = None,
                   WorkloadMetadataConfig = Some \<lparr>Mode = ''GKE_METADATA''\<rparr>\<rparr>\<rparr>]\<rparr>\<rparr>) \<noteq> None"
proof -
  let ?alpha = "createValidSecurityConfig
        \<lparr>Spec := (Spec createValidSecurityConfig)\<lparr>EnableKubernetesAlpha := Some True\<rparr>\<rparr>"
  let ?private = "createValidSecurityConfig
        \<lparr>Spec := (Spec createValidSecurityConfig)\<lparr>PrivateClusterConfig := None\<rparr>\<rparr>"
  let ?pool = "createValidSecurityConfig
        \<lparr>Spec := (Spec createValidSecurityConfig)
           \<lparr>NodePools :=
              [\<lparr>Config = Some \<lparr>ShieldedInstanceConfig = None,
                   WorkloadMetadataConfig = Some \<lparr>Mode = ''GKE_METADATA''\<rparr>\<rparr>\<rparr>]\<rparr>\<rparr>"
  have a: "\<not> spec_compliant ?alpha"
    by (simp add: spec_compliant_def spec_alpha_disabled_def)
  have b: "\<not> spec_compliant ?private"
    by (simp add: spec_compliant_def spec_private_nodes_def)
  have c: "\<not> spec_compliant ?pool"
    by (simp add: spec_compliant_def spec_node_pools_def spec_pool_shielded_def)
  from validateSecurityCompliance_accepts_exactly_compliant [of createValidSecurityConfig]
    validateSecurityCompliance_accepts_exactly_compliant [of ?alpha]
    validateSecurityCompliance_accepts_exactly_compliant [of ?private]
    validateSecurityCompliance_accepts_exactly_compliant [of ?pool]
    createValidSecurityConfig_compliant a b c
  show ?thesis by blast
qed

section \<open>The first broken rule is the one reported\<close>

text \<open>
  Claim C2. \<open>validateSecurityCompliance\<close> returns the violation of the earliest failing
  check of the checklist, whatever the later checks say: the checks before it all pass,
  and the violations of later broken rules are not reported. The order is that of the
  checklist: alpha features, private nodes, binary authorization, shielded nodes, legacy
  ABAC, master authentication (basic authentication, then client certificates), database
  encryption, and the node pools in slice order (configuration present, shielded
  instance, workload metadata).
\<close>

theorem validateSecurityCompliance_reports_first_violation:
  "validateSecurityCompliance config = spec_first_violation config \<and>
   (\<forall>v. validateSecurityCompliance config = Some v \<longleftrightarrow>
      (\<exists>pre post. spec_checklist config = pre @ (False, v) # post \<and> list_all fst pre))"
  by (simp add: validate_checklist spec_first_violation_def first_violation_Some)

lemma Itoa_small: "Itoa 0 = ''0''" "Itoa (Suc 0) = ''1''" "Itoa 12 = ''12''"
  by (simp_all add: Itoa.simps [of 0] Itoa.simps [of "Suc 0"] Itoa.simps [of 12]
        Itoa.simps [of 1])

theorem validateSecurityCompliance_reports_first_violation_witness:
  "failed_checks
     (createValidSecurityConfig
        \<lparr>Spec := (Spec createValidSecurityConfig)
           \<lparr>BinaryAuthorization := Some \<lparr>GKEBinaryAuthorization.Enabled = False\<rparr>,
            DatabaseEncryption := None\<rparr>\<rparr>) = 2 \<and>
   validateSecurityCompliance
     (createValidSecurityConfig
        \<lparr>Spec := (Spec createValidSecurityConfig)
           \<lparr>BinaryAuthorization := Some \<lparr>GKEBinaryAuthorization.Enabled = False\<rparr>,
            DatabaseEncryption := None\<rparr>\<rparr>) =
     Some (New ''binary authorization must be enabled for security compliance'') \<and>
   validateSecurityCompliance
     (createValidSecurityConfig
        \<lparr>Spec := (Spec createValidSecurityConfig)
           \<lparr>NodePools := NodePools (Spec createValidSecurityConfig) @
              [\<lparr>Config = Some \<lparr>ShieldedInstanceConfig = None,
                   WorkloadMetadataConfig = None\<rparr>\<rparr>,
               \<lparr>Config = None\<rparr>]\<rparr>\<rparr>) =
     Some (New ''node pool 1 must have shielded instance config with integrity monitoring and secure boot enabled'')"
proof -
  let ?two = "createValidSecurityConfig
        \<lparr>Spec := (Spec createValidSecurityConfig)
           \<lparr>BinaryAuthorization := Some \<lparr>GKEBinaryAuthorization.Enabled = False\<rparr>,
            DatabaseEncryption := None\<rparr>\<rparr>"
  let ?pools = "createValidSecurityConfig
        \<lparr>Spec := (Spec createValidSecurityConfig)
           \<lparr>NodePools := NodePools (Spec createValidSecurityConfig) @
              [\<lparr>Config = Some \<lparr>ShieldedInstanceConfig = None,
                   WorkloadMetadataConfig = None\<rparr>\<rparr>,
               \<lparr>Config = None\<rparr>]\<rparr>\<rparr>"
  note defs = spec_checklist_def createValidSecurityConfig_def spec_alpha_disabled_def
        spec_private_nodes_def spec_binary_authorization_def spec_shielded_nodes_def
        spec_legacy_abac_disabled_def spec_no_basic_auth_def
        spec_no_client_certificate_def spec_database_encrypted_def
        spec_pool_checks_def
        spec_pool_has_config_def spec_pool_shielded_def spec_pool_gke_metadata_def
  have a: "failed_checks ?two = 2"
    by (simp add: failed_checks_def defs)
  have b: "spec_first_violation ?two =
     Some (New ''binary authorization must be enabled for security compliance'')"
    by (simp add: spec_first_violation_def defs)
  have c: "spec_first_violation ?pools =
     Some (New ''node pool 1 must have shielded instance config with integrity monitoring and secure boot enabled'')"
    by (simp add: spec_first_violation_def defs Itoa_small)
  from validateSecurityCompliance_reports_first_violation [of ?two]
    validateSecurityCompliance_reports_first_violation [of ?pools] a b c
  show ?thesis by simp
qed

section \<open>When the checklist applies\<close>

text \<open>
  Claim C8. \<open>needsSecurityCompliance\<close> holds exactly when the label map has the key
  \<open>compliance\<close> with the value \<open>security\<close>, or the annotation map has the key
  \<open>gke.cattle.io/security-compliance\<close> with the value \<open>true\<close>, the strings compared
  exactly. Without both maps, or without both keys, it is false; so it is for the empty
  configuration.
\<close>

theorem needsSecurityCompliance_iff:
  "(needsSecurityCompliance config \<longleftrightarrow>
      (\<exists>labels. Labels (Spec config) = Some labels \<and>
         labels ''compliance'' = Some ''security'') \<or>
      (\<exists>annotations. Annotations (ObjectMeta config) = Some annotations \<and>
         annotations ''gke.cattle.io/security-compliance'' = Some ''true'')) \<and>
   (Labels (Spec config) = None \<and> Annotations (ObjectMeta config) = None \<longrightarrow>
      \<not> needsSecurityCompliance config) \<and>
   ((\<forall>labels. Labels (Spec config) = Some labels \<longrightarrow> labels ''compliance'' = None) \<and>
    (\<forall>annotations. Annotations (ObjectMeta config) = Some annotations \<longrightarrow>
       annotations ''gke.cattle.io/security-compliance'' = None) \<longrightarrow>
      \<not> needsSecurityCompliance config) \<and>
   \<not> needsSecurityCompliance emptyConfig"
  by (auto simp: needsSecurityCompliance_def emptyConfig_def split: option.splits)

theorem needsSecurityCompliance_iff_witness:
  "needsSecurityCompliance createValidSecurityConfig \<and>
   needsSecurityCompliance
     (emptyConfig\<lparr>ObjectMeta :=
        \<lparr>Annotations = Some [''gke.cattle.io/security-compliance'' \<mapsto> ''true'']\<rparr>\<rparr>) \<and>
   \<not> needsSecurityCompliance
     (emptyConfig\<lparr>Spec := (Spec emptyConfig)\<lparr>Labels := Some [''compliance'' \<mapsto> ''Security'']\<rparr>\<rparr>) \<and>
   \<not> needsSecurityCompliance
     (emptyConfig\<lparr>Spec := (Spec emptyConfig)\<lparr>Labels := Some [''team'' \<mapsto> ''security'']\<rparr>\<rparr>)"
proof -
  let ?ann = "emptyConfig\<lparr>ObjectMeta :=
        \<lparr>Annotations = Some [''gke.cattle.io/security-compliance'' \<mapsto> ''true'']\<rparr>\<rparr>"
  let ?upper = "emptyConfig\<lparr>Spec := (Spec emptyConfig)\<lparr>Labels := Some [''compliance'' \<mapsto> ''Security'']\<rparr>\<rparr>"
  let ?other = "emptyConfig\<lparr>Spec := (Spec emptyConfig)\<lparr>Labels := Some [''team'' \<mapsto> ''security'']\<rparr>\<rparr>"
  have a: "needsSecurityCompliance createValidSecurityConfig"
    using needsSecurityCompliance_iff [of createValidSecurityConfig]
    by (simp add: createValidSecurityConfig_def)
  have b: "needsSecurityCompliance ?ann"
    using needsSecurityCompliance_iff [of ?ann] by (simp add: emptyConfig_def)
  have c: "\<not> needsSecurityCompliance ?upper"
    using needsSecurityCompliance_iff [of ?upper] by (simp add: emptyConfig_def)
  have d: "\<not> needsSecurityCompliance ?other"
    using needsSecurityCompliance_iff [of ?other] by (simp add: emptyConfig_def)
  from a b c d show ?thesis by blast
qed

end
